theory Spec2Isabelle
  imports Complex_Main "HOL-Library.Word" "HOL-Library.Sublist"
begin

section \<open>The program\<close>

text \<open>
  \<open>modelGenerator.ts\<close> turns a text prompt into a 3D model file with three HTTP calls:
  a chat completion rewrites the prompt, an image endpoint draws it, a 3D endpoint
  turns the image into a model. The file holds two variants of the same three functions.
  In the first, \<open>generateImage\<close> calls \<open>optimizePrompt\<close>; in the second it puts a fixed
  system prompt before the user's prompt instead. The first variant keeps the names of
  the source here, the definitions of the second end in \<open>_v2\<close>.

  What the module reads when it is loaded (two API keys, two prompt texts) and what its
  libraries do are the fields of the record \<open>env\<close>. The disk and the sequence of the
  effects of a run are the record \<open>world\<close>. The call at the bottom of the module, which
  runs \<open>generate3DModel\<close> once and prints the outcome, is not part of the model.
\<close>

section \<open>Strings and buffers\<close>

text \<open>
  A JavaScript string is a sequence of UTF-16 code units; \<open>trim\<close>, a regular expression
  without the \<open>u\<close> flag and \<open>substring\<close> all work on code units. A \<open>Buffer\<close> is a
  sequence of bytes. \<open>js\<close> turns an ASCII literal of the source into its code units.
\<close>

type_synonym jsstring = "16 word list"

type_synonym buffer = "8 word list"

definition js :: "string \<Rightarrow> jsstring" where
  "js s = map of_char s"

text \<open>
  \<open>String.prototype.trim\<close> removes, at both ends, the code units that ECMAScript calls
  WhiteSpace (TAB, VT, FF, ZWNBSP and the Unicode category Zs) or LineTerminator
  (LF, CR, LS, PS).
\<close>

definition isWhiteSpace :: "16 word \<Rightarrow> bool" where
  "isWhiteSpace c \<longleftrightarrow>
     c = 0x09 \<or> c = 0x0A \<or> c = 0x0B \<or> c = 0x0C \<or> c = 0x0D \<or> c = 0x20 \<or>
     c = 0xA0 \<or> c = 0x1680 \<or> (0x2000 \<le> c \<and> c \<le> 0x200A) \<or>
     c = 0x2028 \<or> c = 0x2029 \<or> c = 0x202F \<or> c = 0x205F \<or> c = 0x3000 \<or>
     c = 0xFEFF"

definition trim :: "jsstring \<Rightarrow> jsstring" where
  "trim s = rev (dropWhile isWhiteSpace (rev (dropWhile isWhiteSpace s)))"

text \<open>The character class \<open>[a-zA-Z0-9]\<close> of the regular expression.\<close>

definition isAlnum :: "16 word \<Rightarrow> bool" where
  "isAlnum c \<longleftrightarrow>
     (0x61 \<le> c \<and> c \<le> 0x7A) \<or> (0x41 \<le> c \<and> c \<le> 0x5A) \<or> (0x30 \<le> c \<and> c \<le> 0x39)"

text \<open>\<open>s.replace(/[^a-zA-Z0-9]/g, '_')\<close>: every code unit outside the class becomes \<open>_\<close>.\<close>

definition replaceNonAlnum :: "jsstring \<Rightarrow> jsstring" where
  "replaceNonAlnum s = map (\<lambda>c. if isAlnum c then c else 0x5F) s"

text \<open>\<open>s.substring(0, n)\<close> for a constant \<open>n \<ge> 0\<close>: the first \<open>n\<close> code units, or all of \<open>s\<close>.\<close>

definition substring0 :: "nat \<Rightarrow> jsstring \<Rightarrow> jsstring" where
  "substring0 n s = take n s"

definition sanitizeFileName :: "jsstring \<Rightarrow> jsstring" where
  "sanitizeFileName input = substring0 20 (replaceNonAlnum (trim input))"

text \<open>
  A template literal renders a number in decimal. The only numbers rendered into error
  texts are HTTP status codes, which are natural numbers.
\<close>

fun showNat :: "nat \<Rightarrow> jsstring" where
  "showNat n =
     (if n < 10 then [of_nat (48 + n)]
      else showNat (n div 10) @ [of_nat (48 + n mod 10)])"

declare showNat.simps [simp del]

section \<open>Values that cross the boundary of the program\<close>

text \<open>
  A parsed JSON document. An object is the list of its properties; a lookup takes the
  entry that \<open>map_of\<close> finds.
\<close>

datatype json =
    JNull
  | JBool bool
  | JNum rat
  | JStr jsstring
  | JArr "json list"
  | JObj "(jsstring \<times> json) list"

text \<open>
  What can be thrown: \<open>new Error(message)\<close>, the engine's \<open>TypeError\<close> for a property
  read on \<open>undefined\<close> or \<open>null\<close> and for a call of something that is no function (its
  text differs between engines and is left out), and whatever the HTTP client rejects with.
\<close>

datatype error =
    Error jsstring
  | TypeError
  | AxiosError jsstring

datatype form_value =
    Field jsstring
  | ReadStream jsstring

type_synonym form = "(jsstring \<times> form_value) list"

datatype body =
    JsonBody json
  | FormBody form

record request =
  url :: jsstring
  body :: body
  headers :: "(jsstring \<times> jsstring) list"
  responseType :: "jsstring option"

record 'd response =
  status :: nat
  data :: 'd

datatype 'd settled =
    Resolved "'d response"
  | Rejected error

text \<open>
  The arguments of a console call. Elapsed times are differences of \<open>Date.now()\<close>
  readings; only their place in the line is recorded (\<open>Seconds\<close>), not their value.
\<close>

datatype console_arg =
    Text jsstring
  | Thrown error
  | Seconds

datatype event =
    AxiosPost request
  | WriteFileSync jsstring buffer
  | CreateReadStream jsstring
  | ConsoleLog "console_arg list"
  | ConsoleError "console_arg list"

text \<open>
  The state the program acts on: the disk, as a map from resolved paths to file contents,
  and the sequence of effects performed so far, oldest first.
\<close>

record world =
  files :: "jsstring \<Rightarrow> buffer option"
  trace :: "event list"

text \<open>
  What the module reads at load time and what its libraries do. The two keys and the two
  prompt texts are read from files once; \<open>dirname\<close> is \<open>__dirname\<close>. The HTTP client is
  a parameter: for a request it either resolves with a response or rejects with an
  error. Which statuses it resolves with is its own business (as shipped, those from 200
  to 299; any, when it is configured or replaced in a test); the program sees a status
  other than 200 only in a response the client resolved with. A request with
  \<open>responseType: "arraybuffer"\<close> resolves with a \<open>Buffer\<close>, any other with the parsed
  body. Whether the disk takes a write, for a path and its bytes, is a parameter as well.
  \<open>path.resolve\<close>, the headers computed by \<open>form-data\<close>, \<open>Buffer.toString\<close> and
  the conversion \<open>String(v)\<close> of a value that is not a string are library functions and
  stay parameters too.
\<close>

text \<open>
  What a call of \<open>fs.writeFileSync\<close> comes to. The disk takes the bytes, or the call
  throws (the path is a directory, may not be written, the disk is full). A call that
  throws may have opened the file before: the second field is what the path holds
  afterwards, nothing, what it held before, or a part of the new bytes.
\<close>

datatype write_result =
    Written
  | Refused error "buffer option"

record env =
  stabilityAIKey :: jsstring
  openAIKey :: jsstring
  promptModifierImage :: jsstring
  systemPrompt :: jsstring
  dirname :: jsstring
  path_resolve :: "jsstring \<Rightarrow> jsstring \<Rightarrow> jsstring"
  axios_json :: "request \<Rightarrow> json settled"
  axios_arraybuffer :: "request \<Rightarrow> buffer settled"
  fs_writeFileSync :: "jsstring \<Rightarrow> buffer \<Rightarrow> write_result"
  form_getHeaders :: "form \<Rightarrow> (jsstring \<times> jsstring) list"
  buffer_toString :: "buffer \<Rightarrow> jsstring"
  toString :: "json \<Rightarrow> jsstring"

section \<open>Effects\<close>

text \<open>
  An \<open>async\<close> function is run to completion before its caller resumes (every call is
  awaited), so it is a function from the world to its settlement, \<open>Inl\<close> for a rejection,
  and the world it leaves.
\<close>

type_synonym 'a io = "world \<Rightarrow> (error + 'a) \<times> world"

definition return_io :: "'a \<Rightarrow> 'a io" where
  "return_io x = (\<lambda>w. (Inr x, w))"

definition throw_io :: "error \<Rightarrow> 'a io" where
  "throw_io e = (\<lambda>w. (Inl e, w))"

definition bind_io :: "'a io \<Rightarrow> ('a \<Rightarrow> 'b io) \<Rightarrow> 'b io" where
  "bind_io m f = (\<lambda>w. case m w of (Inl e, w') \<Rightarrow> (Inl e, w') | (Inr x, w') \<Rightarrow> f x w')"

definition catch_io :: "'a io \<Rightarrow> (error \<Rightarrow> 'a io) \<Rightarrow> 'a io" where
  "catch_io m h = (\<lambda>w. case m w of (Inl e, w') \<Rightarrow> h e w' | (Inr x, w') \<Rightarrow> (Inr x, w'))"

definition lift_io :: "error + 'a \<Rightarrow> 'a io" where
  "lift_io r = (\<lambda>w. (r, w))"

definition emit :: "event \<Rightarrow> unit io" where
  "emit ev = (\<lambda>w. (Inr (), w\<lparr>trace := trace w @ [ev]\<rparr>))"

definition console_log :: "console_arg list \<Rightarrow> unit io" where
  "console_log args = emit (ConsoleLog args)"

definition console_error :: "console_arg list \<Rightarrow> unit io" where
  "console_error args = emit (ConsoleError args)"

text \<open>
  The event \<open>WriteFileSync\<close> records the call, whether the disk takes the bytes or not.
\<close>

definition writeFileSync :: "env \<Rightarrow> jsstring \<Rightarrow> buffer \<Rightarrow> unit io" where
  "writeFileSync env p d =
     bind_io (emit (WriteFileSync p d))
       (\<lambda>_ w. case fs_writeFileSync env p d of
                 Written \<Rightarrow> (Inr (), w\<lparr>files := (files w)(p \<mapsto> d)\<rparr>)
               | Refused e left \<Rightarrow> (Inl e, w\<lparr>files := (files w)(p := left)\<rparr>))"

definition createReadStream :: "jsstring \<Rightarrow> form_value io" where
  "createReadStream p = bind_io (emit (CreateReadStream p)) (\<lambda>_. return_io (ReadStream p))"

definition axios_post_json :: "env \<Rightarrow> request \<Rightarrow> json response io" where
  "axios_post_json env req =
     bind_io (emit (AxiosPost req))
       (\<lambda>_. case axios_json env req of
               Resolved r \<Rightarrow> return_io r
             | Rejected e \<Rightarrow> throw_io e)"

definition axios_post_arraybuffer :: "env \<Rightarrow> request \<Rightarrow> buffer response io" where
  "axios_post_arraybuffer env req =
     bind_io (emit (AxiosPost req))
       (\<lambda>_. case axios_arraybuffer env req of
               Resolved r \<Rightarrow> return_io r
             | Rejected e \<Rightarrow> throw_io e)"

text \<open>
  The three \<open>catch\<close> blocks of the source have one shape:
  \<open>catch (error) { console.error(label, error); throw error; }\<close>.
\<close>

definition logAndRethrow :: "jsstring \<Rightarrow> error \<Rightarrow> 'a io" where
  "logAndRethrow label e =
     bind_io (console_error [Text label, Thrown e]) (\<lambda>_. throw_io e)"

section \<open>Reading the chat-completion body\<close>

text \<open>
  \<open>response.data\<close> is untyped. Reading a property of \<open>undefined\<close> (\<open>None\<close>) or \<open>null\<close>
  throws; reading one of the names \<open>choices\<close>, \<open>message\<close>, \<open>content\<close>, \<open>error\<close> from a
  boolean, a number, a string or an array gives \<open>undefined\<close>, since no prototype has
  them.
\<close>

fun getProperty :: "jsstring \<Rightarrow> json option \<Rightarrow> error + json option" where
  "getProperty k None = Inl TypeError"
| "getProperty k (Some JNull) = Inl TypeError"
| "getProperty k (Some (JObj kvs)) = Inr (map_of kvs k)"
| "getProperty k (Some v) = Inr None"

text \<open>\<open>v[0]\<close>: the first element of an array, the first code unit of a string.\<close>

fun getIndex0 :: "json option \<Rightarrow> error + json option" where
  "getIndex0 None = Inl TypeError"
| "getIndex0 (Some JNull) = Inl TypeError"
| "getIndex0 (Some (JArr xs)) = Inr (case xs of [] \<Rightarrow> None | x # _ \<Rightarrow> Some x)"
| "getIndex0 (Some (JStr s)) = Inr (case s of [] \<Rightarrow> None | c # _ \<Rightarrow> Some (JStr [c]))"
| "getIndex0 (Some (JObj kvs)) = Inr (map_of kvs (js ''0''))"
| "getIndex0 (Some v) = Inr None"

text \<open>\<open>v.trim()\<close>: only a string has the method.\<close>

fun callTrim :: "json option \<Rightarrow> error + jsstring" where
  "callTrim (Some (JStr s)) = Inr (trim s)"
| "callTrim v = Inl TypeError"

definition bindE :: "error + 'a \<Rightarrow> ('a \<Rightarrow> error + 'b) \<Rightarrow> error + 'b" where
  "bindE r f = (case r of Inl e \<Rightarrow> Inl e | Inr x \<Rightarrow> f x)"

fun truthy :: "json \<Rightarrow> bool" where
  "truthy JNull = False"
| "truthy (JBool b) = b"
| "truthy (JNum n) = (n \<noteq> 0)"
| "truthy (JStr s) = (s \<noteq> [])"
| "truthy (JArr xs) = True"
| "truthy (JObj kvs) = True"

text \<open>\<open>response.data.choices[0].message.content.trim()\<close>\<close>

definition choiceContentTrimmed :: "json \<Rightarrow> error + jsstring" where
  "choiceContentTrimmed d =
     bindE (getProperty (js ''choices'') (Some d)) (\<lambda>choices.
     bindE (getIndex0 choices) (\<lambda>choice.
     bindE (getProperty (js ''message'') choice) (\<lambda>message.
     bindE (getProperty (js ''content'') message) callTrim)))"

text \<open>
  \<open>new Error(response.data.error.message || "Unknown error occurred")\<close>: the message of
  the new error is the argument converted to a string.
\<close>

definition apiErrorMessage :: "env \<Rightarrow> json \<Rightarrow> error + jsstring" where
  "apiErrorMessage env d =
     bindE (getProperty (js ''error'') (Some d)) (\<lambda>err.
     bindE (getProperty (js ''message'') err) (\<lambda>message.
       Inr (case message of
              None \<Rightarrow> js ''Unknown error occurred''
            | Some v \<Rightarrow>
                if truthy v
                then (case v of JStr s \<Rightarrow> s | _ \<Rightarrow> toString env v)
                else js ''Unknown error occurred'')))"

section \<open>The pipeline with the prompt optimizer\<close>

definition chatApiUrl :: jsstring where
  "chatApiUrl = js ''https://api.openai.com/v1/chat/completions''"

definition imageApiUrl :: jsstring where
  "imageApiUrl = js ''https://api.stability.ai/v2beta/stable-image/generate/core''"

definition model3dApiUrl :: jsstring where
  "model3dApiUrl = js ''https://api.stability.ai/v2beta/3d/stable-fast-3d''"

definition chatRequest :: "env \<Rightarrow> jsstring \<Rightarrow> jsstring \<Rightarrow> request" where
  "chatRequest env inputPrompt modifier =
     \<lparr>url = chatApiUrl,
      body = JsonBody (JObj
        [(js ''model'', JStr (js ''gpt-4'')),
         (js ''messages'', JArr
            [JObj [(js ''role'', JStr (js ''system'')), (js ''content'', JStr modifier)],
             JObj [(js ''role'', JStr (js ''user'')), (js ''content'', JStr inputPrompt)]]),
         (js ''max_tokens'', JNum 100),
         (js ''temperature'', JNum (7 / 10))]),
      headers =
        [(js ''Authorization'', js ''Bearer '' @ openAIKey env),
         (js ''Content-Type'', js ''application/json'')],
      responseType = None\<rparr>"

text \<open>The \<open>try\<close> block of \<open>optimizePrompt\<close>.\<close>

definition optimizePrompt_try :: "env \<Rightarrow> jsstring \<Rightarrow> jsstring \<Rightarrow> jsstring io" where
  "optimizePrompt_try env inputPrompt modifier =
     bind_io (axios_post_json env (chatRequest env inputPrompt modifier)) (\<lambda>response.
       if status response = 200 then
         bind_io (lift_io (choiceContentTrimmed (data response))) (\<lambda>optimizedPrompt.
         bind_io (console_log [Text (js ''Optimized Prompt: '' @ optimizedPrompt)]) (\<lambda>_.
         return_io optimizedPrompt))
       else
         bind_io (console_error
            [Text (js ''OpenAI API call failed with status: '' @ showNat (status response))]) (\<lambda>_.
         bind_io (lift_io (apiErrorMessage env (data response))) (\<lambda>message.
         throw_io (Error message))))"

definition optimizePrompt :: "env \<Rightarrow> jsstring \<Rightarrow> jsstring \<Rightarrow> jsstring io" where
  "optimizePrompt env inputPrompt modifier =
     catch_io (optimizePrompt_try env inputPrompt modifier)
       (logAndRethrow (js ''Error optimizing prompt:''))"

definition imageForm :: "jsstring \<Rightarrow> form" where
  "imageForm optimizedPrompt =
     [(js ''prompt'', Field optimizedPrompt), (js ''output_format'', Field (js ''png''))]"

definition imageRequest :: "env \<Rightarrow> form \<Rightarrow> request" where
  "imageRequest env formData =
     \<lparr>url = imageApiUrl,
      body = FormBody formData,
      headers =
        [(js ''Authorization'', js ''Bearer '' @ stabilityAIKey env),
         (js ''Accept'', js ''image/*'')] @ form_getHeaders env formData,
      responseType = Some (js ''arraybuffer'')\<rparr>"

definition pngFileName :: "jsstring \<Rightarrow> jsstring" where
  "pngFileName prompt = js ''gen_'' @ sanitizeFileName prompt @ js ''.png''"

definition glbFileName :: "jsstring \<Rightarrow> jsstring" where
  "glbFileName prompt = js ''gen_'' @ sanitizeFileName prompt @ js ''.glb''"

text \<open>
  What both variants of \<open>generateImage\<close> do with the settled response (the same lines in
  both): on status 200 write the file and return its path, otherwise throw.
\<close>

definition saveImage :: "env \<Rightarrow> jsstring \<Rightarrow> buffer response \<Rightarrow> jsstring io" where
  "saveImage env prompt response =
     (if status response = 200 then
        let sanitizedFileName = pngFileName prompt;
            imagePath = path_resolve env (dirname env) sanitizedFileName
        in bind_io (writeFileSync env imagePath (data response)) (\<lambda>_.
           bind_io (console_log
              [Text (js ''Image generated successfully at: '' @ imagePath @ js '' (Elapsed Time: ''),
               Seconds, Text (js ''s)'')]) (\<lambda>_.
           return_io imagePath))
      else
        throw_io (Error (js ''Image generation failed: '' @ showNat (status response)
                         @ js '' - '' @ buffer_toString env (data response))))"

text \<open>The \<open>try\<close> block of \<open>generateImage\<close>, entered with the optimized prompt.\<close>

definition generateImage_try :: "env \<Rightarrow> jsstring \<Rightarrow> jsstring \<Rightarrow> jsstring io" where
  "generateImage_try env prompt optimizedPrompt =
     (let formData = imageForm optimizedPrompt
      in bind_io (axios_post_arraybuffer env (imageRequest env formData))
           (saveImage env prompt))"

text \<open>The call of \<open>optimizePrompt\<close> stands before the \<open>try\<close>, outside of it.\<close>

definition generateImage :: "env \<Rightarrow> jsstring \<Rightarrow> jsstring io" where
  "generateImage env prompt =
     bind_io (optimizePrompt env prompt (promptModifierImage env)) (\<lambda>optimizedPrompt.
     catch_io (generateImage_try env prompt optimizedPrompt)
       (logAndRethrow (js ''Error generating image:'')))"

definition model3dForm :: "form_value \<Rightarrow> form" where
  "model3dForm stream =
     [(js ''image'', stream),
      (js ''texture_resolution'', Field (js ''512'')),
      (js ''foreground_ratio'', Field (js ''0.7''))]"

definition model3dRequest :: "env \<Rightarrow> form \<Rightarrow> request" where
  "model3dRequest env formData =
     \<lparr>url = model3dApiUrl,
      body = FormBody formData,
      headers =
        [(js ''Authorization'', js ''Bearer '' @ stabilityAIKey env)]
        @ form_getHeaders env formData,
      responseType = Some (js ''arraybuffer'')\<rparr>"

text \<open>
  The part of \<open>generate3DModel\<close> after the image has been generated, the same lines in both
  variants.
\<close>

definition saveModel :: "env \<Rightarrow> jsstring \<Rightarrow> buffer response \<Rightarrow> jsstring io" where
  "saveModel env prompt response =
     (if status response = 200 then
        let sanitizedFileName = glbFileName prompt;
            outputPath = path_resolve env (dirname env) sanitizedFileName
        in bind_io (writeFileSync env outputPath (data response)) (\<lambda>_.
           bind_io (console_log
              [Text (js ''3D model generated successfully at: '' @ outputPath)]) (\<lambda>_.
           bind_io (console_log
              [Text (js ''Elapsed Time - Image Generation: ''), Seconds,
               Text (js ''s, Model Generation: ''), Seconds,
               Text (js ''s, Total: ''), Seconds, Text (js ''s'')]) (\<lambda>_.
           return_io outputPath)))
      else
        throw_io (Error (js ''3D model generation failed: '' @ showNat (status response)
                         @ js '' - '' @ buffer_toString env (data response))))"

definition imageTo3DModel :: "env \<Rightarrow> jsstring \<Rightarrow> jsstring \<Rightarrow> jsstring io" where
  "imageTo3DModel env prompt inputImagePath =
     bind_io (console_log [Text (js ''Using generated image: '' @ inputImagePath)]) (\<lambda>_.
     bind_io (createReadStream inputImagePath) (\<lambda>stream.
     let formData = model3dForm stream
     in bind_io (axios_post_arraybuffer env (model3dRequest env formData))
          (saveModel env prompt)))"

text \<open>The \<open>try\<close> block of \<open>generate3DModel\<close>.\<close>

definition generate3DModel_try :: "env \<Rightarrow> jsstring \<Rightarrow> jsstring io" where
  "generate3DModel_try env prompt =
     bind_io (generateImage env prompt) (imageTo3DModel env prompt)"

definition generate3DModel :: "env \<Rightarrow> jsstring \<Rightarrow> jsstring io" where
  "generate3DModel env prompt =
     catch_io (generate3DModel_try env prompt)
       (logAndRethrow (js ''Error generating 3D model:''))"

section \<open>The pipeline with the fixed system prompt\<close>

text \<open>
  The second variant has no optimizer: \<open>generateImage\<close> sends the trimmed system prompt,
  a space and the user's prompt, with a width and a height. Its form is built before the
  \<open>try\<close>. \<open>sanitizeFileName\<close> and \<open>generate3DModel\<close> are the same text as in the first
  variant.
\<close>

definition imageForm_v2 :: "env \<Rightarrow> jsstring \<Rightarrow> form" where
  "imageForm_v2 env prompt =
     (let fullPrompt = trim (systemPrompt env) @ js '' '' @ prompt
      in [(js ''prompt'', Field fullPrompt),
          (js ''width'', Field (js ''512'')),
          (js ''height'', Field (js ''512'')),
          (js ''output_format'', Field (js ''png''))])"

definition generateImage_v2_try :: "env \<Rightarrow> jsstring \<Rightarrow> form \<Rightarrow> jsstring io" where
  "generateImage_v2_try env prompt formData =
     bind_io (axios_post_arraybuffer env (imageRequest env formData))
       (saveImage env prompt)"

definition generateImage_v2 :: "env \<Rightarrow> jsstring \<Rightarrow> jsstring io" where
  "generateImage_v2 env prompt =
     (let formData = imageForm_v2 env prompt
      in catch_io (generateImage_v2_try env prompt formData)
           (logAndRethrow (js ''Error generating image:'')))"

definition generate3DModel_v2_try :: "env \<Rightarrow> jsstring \<Rightarrow> jsstring io" where
  "generate3DModel_v2_try env prompt =
     bind_io (generateImage_v2 env prompt) (imageTo3DModel env prompt)"

definition generate3DModel_v2 :: "env \<Rightarrow> jsstring \<Rightarrow> jsstring io" where
  "generate3DModel_v2 env prompt =
     catch_io (generate3DModel_v2_try env prompt)
       (logAndRethrow (js ''Error generating 3D model:''))"

section \<open>Reading a trace\<close>

text \<open>The effects a run adds to the trace of the world it started in.\<close>

definition newEvents :: "world \<Rightarrow> world \<Rightarrow> event list" where
  "newEvents w w' = drop (length (trace w)) (trace w')"

fun isPostTo :: "jsstring \<Rightarrow> event \<Rightarrow> bool" where
  "isPostTo u (AxiosPost req) = (url req = u)"
| "isPostTo u ev = False"

fun isWrite :: "event \<Rightarrow> bool" where
  "isWrite (WriteFileSync p d) = True"
| "isWrite ev = False"

fun isConsole :: "event \<Rightarrow> bool" where
  "isConsole (ConsoleLog args) = True"
| "isConsole (ConsoleError args) = True"
| "isConsole ev = False"

section \<open>Sample environments\<close>

text \<open>
  The end-to-end cases of the specification: the prompt \<open>a red cube\<close> with every endpoint
  answering 200, and the same with one endpoint failing. The chat endpoint answers with
  a text that differs from the prompt, surrounded by blanks.
\<close>

definition demoChatBody :: json where
  "demoChatBody =
     JObj [(js ''choices'', JArr [JObj [(js ''message'',
       JObj [(js ''role'', JStr (js ''assistant'')),
             (js ''content'', JStr (js '' a shiny red cube, studio light ''))])]])]"

definition demoEnv :: env where
  "demoEnv =
     \<lparr>stabilityAIKey = js ''sk-stability'',
      openAIKey = js ''sk-openai'',
      promptModifierImage = js ''Rewrite the prompt for an image model.'',
      systemPrompt = js '' A single object on a white background. '',
      dirname = js ''/app/dist'',
      path_resolve = (\<lambda>dir name. dir @ js ''/'' @ name),
      axios_json = (\<lambda>req. Resolved \<lparr>status = 200, data = demoChatBody\<rparr>),
      axios_arraybuffer = (\<lambda>req.
         if url req = imageApiUrl
         then Resolved \<lparr>status = 200, data = [0x89, 0x50, 0x4E, 0x47]\<rparr>
         else Resolved \<lparr>status = 200, data = [0x67, 0x6C, 0x54, 0x46]\<rparr>),
      fs_writeFileSync = (\<lambda>path bytes. Written),
      form_getHeaders = (\<lambda>formData. [(js ''content-type'', js ''multipart/form-data'')]),
      buffer_toString = map ucast,
      toString = (\<lambda>v. js ''[object Object]'')\<rparr>"

text \<open>The same installation on a later day: both endpoints send other bytes.\<close>

definition demoEnvLater :: env where
  "demoEnvLater =
     demoEnv\<lparr>axios_arraybuffer := (\<lambda>req.
        if url req = imageApiUrl
        then Resolved \<lparr>status = 200, data = [0x89, 0x50, 0x4E, 0x47, 0x0D]\<rparr>
        else Resolved \<lparr>status = 200, data = [0x67, 0x6C, 0x54, 0x46, 0x02]\<rparr>)\<rparr>"

text \<open>The 3D endpoint answers 500 with the body \<open>fail\<close>.\<close>

definition demoEnv3dDown :: env where
  "demoEnv3dDown =
     demoEnv\<lparr>axios_arraybuffer := (\<lambda>req.
        if url req = imageApiUrl
        then Resolved \<lparr>status = 200, data = [0x89, 0x50, 0x4E, 0x47]\<rparr>
        else Resolved \<lparr>status = 500, data = [0x66, 0x61, 0x69, 0x6C]\<rparr>)\<rparr>"

text \<open>The image endpoint answers 204 with an empty body.\<close>

definition demoEnvNoImage :: env where
  "demoEnvNoImage =
     demoEnv\<lparr>axios_arraybuffer := (\<lambda>req. Resolved \<lparr>status = 204, data = []\<rparr>)\<rparr>"

text \<open>The client rejects the answer 500 of the 3D endpoint, as it does when shipped.\<close>

definition demoEnv3dRejected :: env where
  "demoEnv3dRejected =
     demoEnv\<lparr>axios_arraybuffer := (\<lambda>req.
        if url req = imageApiUrl
        then Resolved \<lparr>status = 200, data = [0x89, 0x50, 0x4E, 0x47]\<rparr>
        else Rejected (AxiosError (js ''Request failed with status code 500'')))\<rparr>"

text \<open>
  The path of the \<open>.png\<close> file is a directory: the write throws, and there is no file
  at the path.
\<close>

definition demoEnvIsDir :: env where
  "demoEnvIsDir =
     demoEnv\<lparr>fs_writeFileSync := (\<lambda>path bytes.
        if path = js ''/app/dist/gen_a_red_cube.png''
        then Refused (Error (js ''EISDIR: illegal operation on a directory, open'')) None
        else Written)\<rparr>"

text \<open>The chat endpoint cannot be reached.\<close>

definition demoEnvChatDown :: env where
  "demoEnvChatDown =
     demoEnv\<lparr>axios_json := (\<lambda>req. Rejected (AxiosError (js ''Network Error'')))\<rparr>"

definition emptyWorld :: world where
  "emptyWorld = \<lparr>files = Map.empty, trace = []\<rparr>"

section \<open>Facts about \<open>trim\<close> and \<open>sanitizeFileName\<close>\<close>

lemma trim_all_whitespace: "\<forall>c\<in>set s. isWhiteSpace c \<Longrightarrow> trim s = []"
proof -
  assume "\<forall>c\<in>set s. isWhiteSpace c"
  then have d: "dropWhile isWhiteSpace s = []" by (induction s) auto
  show ?thesis unfolding trim_def d by simp
qed

lemma trim_fixed:
  assumes "s = [] \<or> (\<not> isWhiteSpace (hd s) \<and> \<not> isWhiteSpace (last s))"
  shows "trim s = s"
proof -
  have "dropWhile isWhiteSpace s = s"
    using assms by (auto simp: dropWhile_eq_self_iff)
  moreover have "dropWhile isWhiteSpace (rev s) = rev s"
    using assms by (auto simp: dropWhile_eq_self_iff hd_rev)
  ultimately show ?thesis by (simp add: trim_def)
qed

lemma trim_decompose:
  "\<exists>a b. s = a @ trim s @ b \<and> (\<forall>c\<in>set a. isWhiteSpace c) \<and> (\<forall>c\<in>set b. isWhiteSpace c)"
proof -
  let ?a = "takeWhile isWhiteSpace s"
  let ?m = "dropWhile isWhiteSpace s"
  let ?b = "rev (takeWhile isWhiteSpace (rev ?m))"
  have "?m = trim s @ ?b"
    unfolding trim_def
    by (metis rev_append rev_rev_ident takeWhile_dropWhile_id)
  then have "s = ?a @ trim s @ ?b"
    by (metis takeWhile_dropWhile_id)
  moreover have "\<forall>c\<in>set ?a. isWhiteSpace c" by (auto dest: set_takeWhileD)
  moreover have "\<forall>c\<in>set ?b. isWhiteSpace c" by (auto dest: set_takeWhileD)
  ultimately show ?thesis by blast
qed

lemma trim_ends:
  assumes ne: "trim s \<noteq> []"
  shows "\<not> isWhiteSpace (hd (trim s)) \<and> \<not> isWhiteSpace (last (trim s))"
proof -
  let ?m = "dropWhile isWhiteSpace s"
  let ?r = "dropWhile isWhiteSpace (rev ?m)"
  have t: "trim s = rev ?r" by (simp add: trim_def)
  with ne have rne: "?r \<noteq> []" by simp
  then have "\<not> isWhiteSpace (hd ?r)" by (metis hd_dropWhile)
  then have l: "\<not> isWhiteSpace (last (trim s))" using rne t by (simp add: last_rev)
  have mne: "?m \<noteq> []"
  proof
    assume "?m = []"
    then have "rev ?m = []" by (simp only: rev.simps)
    then have "?r = []" by (simp only: dropWhile.simps)
    with rne show False by blast
  qed
  then have hm: "\<not> isWhiteSpace (hd ?m)" by (metis hd_dropWhile)
  have "?m = trim s @ rev (takeWhile isWhiteSpace (rev ?m))"
    unfolding trim_def by (metis rev_append rev_rev_ident takeWhile_dropWhile_id)
  then have "hd ?m = hd (trim s)" using ne by (metis hd_append2)
  with hm l show ?thesis by simp
qed

lemma alnum_not_ws: "isAlnum c \<or> c = 0x5F \<Longrightarrow> \<not> isWhiteSpace c"
  unfolding isAlnum_def isWhiteSpace_def
  by (elim disjE) (simp_all, unat_arith+)

lemma set_sanitize: "c \<in> set (sanitizeFileName s) \<Longrightarrow> isAlnum c \<or> c = 0x5F"
  by (auto simp: sanitizeFileName_def substring0_def replaceNonAlnum_def dest!: in_set_takeD)

lemma length_sanitize: "length (sanitizeFileName s) \<le> 20"
  by (simp add: sanitizeFileName_def substring0_def)

lemma replace_fixed: "\<forall>c\<in>set s. isAlnum c \<or> c = 0x5F \<Longrightarrow> replaceNonAlnum s = s"
  by (induction s) (auto simp: replaceNonAlnum_def)

lemma sanitize_idem: "sanitizeFileName (sanitizeFileName s) = sanitizeFileName s"
proof -
  let ?t = "sanitizeFileName s"
  have ok: "\<forall>c\<in>set ?t. isAlnum c \<or> c = 0x5F" using set_sanitize by blast
  have "trim ?t = ?t"
  proof (rule trim_fixed, cases "?t = []")
    case True then show "?t = [] \<or> (\<not> isWhiteSpace (hd ?t) \<and> \<not> isWhiteSpace (last ?t))" by simp
  next
    case False
    then have "hd ?t \<in> set ?t" "last ?t \<in> set ?t" by simp_all
    with ok show "?t = [] \<or> (\<not> isWhiteSpace (hd ?t) \<and> \<not> isWhiteSpace (last ?t))"
      using alnum_not_ws by blast
  qed
  moreover have "replaceNonAlnum ?t = ?t" using ok by (rule replace_fixed)
  moreover have "substring0 20 ?t = ?t" using length_sanitize by (simp add: substring0_def)
  ultimately show ?thesis by (simp add: sanitizeFileName_def [of ?t])
qed

lemma isAlnum_chars: "isAlnum c \<longleftrightarrow> c \<in> set (js ''abcdefghijklmnopqrstuvwxyzABCDEFGHIJKLMNOPQRSTUVWXYZ0123456789'')"
  unfolding isAlnum_def js_def
  apply simp
  apply (rule iffI)
   apply (elim disjE conjE)
  apply unat_arith
  apply unat_arith
  apply unat_arith
  apply (elim disjE)
  apply simp_all
  done

section \<open>What each stage does, by the answers it gets\<close>

lemmas io_defs = return_io_def throw_io_def bind_io_def catch_io_def lift_io_def emit_def
  console_log_def console_error_def writeFileSync_def createReadStream_def
  axios_post_json_def axios_post_arraybuffer_def logAndRethrow_def

lemma url_distinct [simp]:
  "chatApiUrl \<noteq> imageApiUrl" "imageApiUrl \<noteq> chatApiUrl"
  "chatApiUrl \<noteq> model3dApiUrl" "model3dApiUrl \<noteq> chatApiUrl"
  "imageApiUrl \<noteq> model3dApiUrl" "model3dApiUrl \<noteq> imageApiUrl"
  by (simp_all add: chatApiUrl_def imageApiUrl_def model3dApiUrl_def js_def)

lemma url_requests [simp]:
  "url (chatRequest env p m) = chatApiUrl"
  "url (imageRequest env f) = imageApiUrl"
  "url (model3dRequest env f) = model3dApiUrl"
  by (simp_all add: chatRequest_def imageRequest_def model3dRequest_def)

lemma newEvents_append [simp]: "newEvents w (w'\<lparr>trace := trace w @ evs\<rparr>) = evs"
  by (simp add: newEvents_def)

lemma newEvents_self [simp]: "newEvents w w = []"
  by (simp add: newEvents_def)

lemma optimizePrompt_run:
  "optimizePrompt env p m w =
     (let post = AxiosPost (chatRequest env p m);
          caught = (\<lambda>evs e. (Inl e, w\<lparr>trace := trace w @ post # evs @
                      [ConsoleError [Text (js ''Error optimizing prompt:''), Thrown e]]\<rparr>))
      in case axios_json env (chatRequest env p m) of
           Rejected e \<Rightarrow> caught [] e
         | Resolved r \<Rightarrow>
             if status r = 200 then
               (case choiceContentTrimmed (data r) of
                  Inl e \<Rightarrow> caught [] e
                | Inr opt \<Rightarrow> (Inr opt, w\<lparr>trace := trace w @
                     [post, ConsoleLog [Text (js ''Optimized Prompt: '' @ opt)]]\<rparr>))
             else
               (let said = ConsoleError
                      [Text (js ''OpenAI API call failed with status: '' @ showNat (status r))]
                in case apiErrorMessage env (data r) of
                     Inl e \<Rightarrow> caught [said] e
                   | Inr msg \<Rightarrow> caught [said] (Error msg)))"
  by (simp add: optimizePrompt_def optimizePrompt_try_def io_defs Let_def
           split: settled.splits sum.splits)

lemma generateImage_run:
  "generateImage env p w =
     (case optimizePrompt env p (promptModifierImage env) w of
        (Inl e, w1) \<Rightarrow> (Inl e, w1)
      | (Inr opt, w1) \<Rightarrow>
          (let req = imageRequest env (imageForm opt);
               png = path_resolve env (dirname env) (pngFileName p);
               caught = (\<lambda>e. (Inl e, w1\<lparr>trace := trace w1 @
                  [AxiosPost req, ConsoleError [Text (js ''Error generating image:''), Thrown e]]\<rparr>))
           in case axios_arraybuffer env req of
                Rejected e \<Rightarrow> caught e
              | Resolved r \<Rightarrow>
                  if status r = 200 then
                    (case fs_writeFileSync env png (data r) of
                       Written \<Rightarrow>
                         (Inr png, w1\<lparr>files := (files w1)(png \<mapsto> data r),
                            trace := trace w1 @
                              [AxiosPost req, WriteFileSync png (data r),
                               ConsoleLog [Text (js ''Image generated successfully at: '' @ png
                                            @ js '' (Elapsed Time: ''), Seconds, Text (js ''s)'')]]\<rparr>)
                     | Refused e left \<Rightarrow>
                         (Inl e, w1\<lparr>files := (files w1)(png := left),
                            trace := trace w1 @
                              [AxiosPost req, WriteFileSync png (data r),
                               ConsoleError [Text (js ''Error generating image:''), Thrown e]]\<rparr>))
                  else caught (Error (js ''Image generation failed: '' @ showNat (status r)
                                      @ js '' - '' @ buffer_toString env (data r)))))"
  by (simp add: generateImage_def generateImage_try_def saveImage_def io_defs Let_def
           split: settled.splits sum.splits prod.splits write_result.splits)

lemma imageTo3DModel_run:
  "imageTo3DModel env p png w1 =
     (let req = model3dRequest env (model3dForm (ReadStream png));
          glb = path_resolve env (dirname env) (glbFileName p);
          before = [ConsoleLog [Text (js ''Using generated image: '' @ png)],
                    CreateReadStream png, AxiosPost req]
      in case axios_arraybuffer env req of
           Rejected e \<Rightarrow> (Inl e, w1\<lparr>trace := trace w1 @ before\<rparr>)
         | Resolved r \<Rightarrow>
             if status r = 200 then
               (case fs_writeFileSync env glb (data r) of
                  Written \<Rightarrow>
                    (Inr glb, w1\<lparr>files := (files w1)(glb \<mapsto> data r),
                       trace := trace w1 @ before @
                         [WriteFileSync glb (data r),
                          ConsoleLog [Text (js ''3D model generated successfully at: '' @ glb)],
                          ConsoleLog [Text (js ''Elapsed Time - Image Generation: ''), Seconds,
                                      Text (js ''s, Model Generation: ''), Seconds,
                                      Text (js ''s, Total: ''), Seconds, Text (js ''s'')]]\<rparr>)
                | Refused e left \<Rightarrow>
                    (Inl e, w1\<lparr>files := (files w1)(glb := left),
                       trace := trace w1 @ before @ [WriteFileSync glb (data r)]\<rparr>))
             else (Inl (Error (js ''3D model generation failed: '' @ showNat (status r)
                               @ js '' - '' @ buffer_toString env (data r))),
                   w1\<lparr>trace := trace w1 @ before\<rparr>))"
  by (simp add: imageTo3DModel_def saveModel_def io_defs Let_def
           split: settled.splits sum.splits prod.splits write_result.splits)

lemma generate3DModel_run:
  "generate3DModel env p w =
     (case generateImage env p w of
        (Inl e, w1) \<Rightarrow> logAndRethrow (js ''Error generating 3D model:'') e w1
      | (Inr png, w1) \<Rightarrow>
          (case imageTo3DModel env p png w1 of
             (Inl e, w2) \<Rightarrow> logAndRethrow (js ''Error generating 3D model:'') e w2
           | (Inr glb, w2) \<Rightarrow> (Inr glb, w2)))"
  by (simp add: generate3DModel_def generate3DModel_try_def bind_io_def catch_io_def
           split: sum.splits prod.splits)

lemma logAndRethrow_run:
  "logAndRethrow label e w = (Inl e, w\<lparr>trace := trace w @ [ConsoleError [Text label, Thrown e]]\<rparr>)"
  by (simp add: io_defs)


lemma optimizePrompt_InlD:
  assumes "optimizePrompt env p m w = (Inl e, w1)"
  shows "\<exists>cs. (\<forall>ev\<in>set cs. isConsole ev)
           \<and> w1 = w\<lparr>trace := trace w @ AxiosPost (chatRequest env p m) # cs\<rparr>"
proof -
  let ?w1 = "snd (optimizePrompt env p m w)"
  let ?cs = "tl (newEvents w ?w1)"
  have "(\<forall>ev\<in>set ?cs. isConsole ev)
          \<and> ?w1 = w\<lparr>trace := trace w @ AxiosPost (chatRequest env p m) # ?cs\<rparr>"
    if "fst (optimizePrompt env p m w) = Inl e"
    using that
    by (auto simp: optimizePrompt_run Let_def split: settled.splits sum.splits if_splits)
  with assms show ?thesis by (intro exI [of _ ?cs]) simp
qed

lemma optimizePrompt_InrD:
  assumes "optimizePrompt env p m w = (Inr opt, w1)"
  shows "w1 = w\<lparr>trace := trace w @ [AxiosPost (chatRequest env p m),
                     ConsoleLog [Text (js ''Optimized Prompt: '' @ opt)]]\<rparr>
         \<and> (\<exists>r. axios_json env (chatRequest env p m) = Resolved r \<and> status r = 200
                \<and> choiceContentTrimmed (data r) = Inr opt)"
  using assms
  by (auto simp: optimizePrompt_run Let_def split: settled.splits sum.splits if_splits)

lemma generate3DModel_scenarios:
  fixes env p w
  defines "pm \<equiv> promptModifierImage env"
    and "chat \<equiv> AxiosPost (chatRequest env p (promptModifierImage env))"
    and "png \<equiv> path_resolve env (dirname env) (pngFileName p)"
    and "glb \<equiv> path_resolve env (dirname env) (glbFileName p)"
  defines "m3d \<equiv> model3dRequest env (model3dForm (ReadStream png))"
    and "said \<equiv> (\<lambda>opt. ConsoleLog [Text (js ''Optimized Prompt: '' @ opt)])"
    and "caughtI \<equiv> (\<lambda>e. ConsoleError [Text (js ''Error generating image:''), Thrown e])"
    and "caughtM \<equiv> (\<lambda>e. ConsoleError [Text (js ''Error generating 3D model:''), Thrown e])"
    and "saved \<equiv> ConsoleLog [Text (js ''Image generated successfully at: '' @ png
                       @ js '' (Elapsed Time: ''), Seconds, Text (js ''s)'')]"
    and "using \<equiv> ConsoleLog [Text (js ''Using generated image: '' @ png)]"
    and "done1 \<equiv> ConsoleLog [Text (js ''3D model generated successfully at: '' @ glb)]"
    and "done2 \<equiv> ConsoleLog [Text (js ''Elapsed Time - Image Generation: ''), Seconds,
                                 Text (js ''s, Model Generation: ''), Seconds,
                                 Text (js ''s, Total: ''), Seconds, Text (js ''s'')]"
  obtains
    (optimizer_failed) e cs where
      "\<forall>ev\<in>set cs. isConsole ev"
      "optimizePrompt env p pm w = (Inl e, w\<lparr>trace := trace w @ chat # cs\<rparr>)"
      "generateImage env p w = (Inl e, w\<lparr>trace := trace w @ chat # cs\<rparr>)"
      "generate3DModel env p w = (Inl e, w\<lparr>trace := trace w @ chat # cs @ [caughtM e]\<rparr>)"
  | (image_failed) opt e where
      "optimizePrompt env p pm w = (Inr opt, w\<lparr>trace := trace w @ [chat, said opt]\<rparr>)"
      "axios_arraybuffer env (imageRequest env (imageForm opt)) = Rejected e
       \<or> (\<exists>r. axios_arraybuffer env (imageRequest env (imageForm opt)) = Resolved r
              \<and> status r \<noteq> 200
              \<and> e = Error (js ''Image generation failed: '' @ showNat (status r)
                            @ js '' - '' @ buffer_toString env (data r)))"
      "generateImage env p w = (Inl e, w\<lparr>trace := trace w @
          [chat, said opt, AxiosPost (imageRequest env (imageForm opt)), caughtI e]\<rparr>)"
      "generate3DModel env p w = (Inl e, w\<lparr>trace := trace w @
          [chat, said opt, AxiosPost (imageRequest env (imageForm opt)), caughtI e, caughtM e]\<rparr>)"
  | (image_write_refused) opt ri e left where
      "optimizePrompt env p pm w = (Inr opt, w\<lparr>trace := trace w @ [chat, said opt]\<rparr>)"
      "axios_arraybuffer env (imageRequest env (imageForm opt)) = Resolved ri"
      "status ri = 200"
      "fs_writeFileSync env png (data ri) = Refused e left"
      "generateImage env p w = (Inl e, w\<lparr>files := (files w)(png := left), trace := trace w @
          [chat, said opt, AxiosPost (imageRequest env (imageForm opt)),
           WriteFileSync png (data ri), caughtI e]\<rparr>)"
      "generate3DModel env p w = (Inl e, w\<lparr>files := (files w)(png := left), trace := trace w @
          [chat, said opt, AxiosPost (imageRequest env (imageForm opt)),
           WriteFileSync png (data ri), caughtI e, caughtM e]\<rparr>)"
  | (model_failed) opt ri e where
      "optimizePrompt env p pm w = (Inr opt, w\<lparr>trace := trace w @ [chat, said opt]\<rparr>)"
      "axios_arraybuffer env (imageRequest env (imageForm opt)) = Resolved ri"
      "status ri = 200"
      "fs_writeFileSync env png (data ri) = Written"
      "axios_arraybuffer env m3d = Rejected e
       \<or> (\<exists>r. axios_arraybuffer env m3d = Resolved r
              \<and> status r \<noteq> 200
              \<and> e = Error (js ''3D model generation failed: '' @ showNat (status r)
                            @ js '' - '' @ buffer_toString env (data r)))"
      "generateImage env p w = (Inr png, w\<lparr>files := (files w)(png \<mapsto> data ri), trace := trace w @
          [chat, said opt, AxiosPost (imageRequest env (imageForm opt)),
           WriteFileSync png (data ri), saved]\<rparr>)"
      "generate3DModel env p w = (Inl e, w\<lparr>files := (files w)(png \<mapsto> data ri), trace := trace w @
          [chat, said opt, AxiosPost (imageRequest env (imageForm opt)),
           WriteFileSync png (data ri), saved, using, CreateReadStream png, AxiosPost m3d,
           caughtM e]\<rparr>)"
  | (model_write_refused) opt ri rm e left where
      "optimizePrompt env p pm w = (Inr opt, w\<lparr>trace := trace w @ [chat, said opt]\<rparr>)"
      "axios_arraybuffer env (imageRequest env (imageForm opt)) = Resolved ri"
      "status ri = 200"
      "fs_writeFileSync env png (data ri) = Written"
      "axios_arraybuffer env m3d = Resolved rm"
      "status rm = 200"
      "fs_writeFileSync env glb (data rm) = Refused e left"
      "generateImage env p w = (Inr png, w\<lparr>files := (files w)(png \<mapsto> data ri), trace := trace w @
          [chat, said opt, AxiosPost (imageRequest env (imageForm opt)),
           WriteFileSync png (data ri), saved]\<rparr>)"
      "generate3DModel env p w =
         (Inl e, w\<lparr>files := (files w)(png \<mapsto> data ri, glb := left), trace := trace w @
          [chat, said opt, AxiosPost (imageRequest env (imageForm opt)),
           WriteFileSync png (data ri), saved, using, CreateReadStream png, AxiosPost m3d,
           WriteFileSync glb (data rm), caughtM e]\<rparr>)"
  | (succeeded) opt ri rm where
      "optimizePrompt env p pm w = (Inr opt, w\<lparr>trace := trace w @ [chat, said opt]\<rparr>)"
      "axios_arraybuffer env (imageRequest env (imageForm opt)) = Resolved ri"
      "status ri = 200"
      "fs_writeFileSync env png (data ri) = Written"
      "axios_arraybuffer env m3d = Resolved rm"
      "status rm = 200"
      "fs_writeFileSync env glb (data rm) = Written"
      "generateImage env p w = (Inr png, w\<lparr>files := (files w)(png \<mapsto> data ri), trace := trace w @
          [chat, said opt, AxiosPost (imageRequest env (imageForm opt)),
           WriteFileSync png (data ri), saved]\<rparr>)"
      "generate3DModel env p w =
         (Inr glb, w\<lparr>files := (files w)(png \<mapsto> data ri, glb \<mapsto> data rm), trace := trace w @
          [chat, said opt, AxiosPost (imageRequest env (imageForm opt)),
           WriteFileSync png (data ri), saved, using, CreateReadStream png, AxiosPost m3d,
           WriteFileSync glb (data rm), done1, done2]\<rparr>)"
proof (cases "optimizePrompt env p pm w")
  case (Pair res w1)
  show ?thesis
  proof (cases res)
    case (Inl e)
    with Pair obtain cs where cs: "\<forall>ev\<in>set cs. isConsole ev"
        and w1: "w1 = w\<lparr>trace := trace w @ chat # cs\<rparr>"
      using optimizePrompt_InlD [of env p pm w e w1] by (auto simp: chat_def pm_def)
    show ?thesis
    proof (rule optimizer_failed [OF cs])
      show o: "optimizePrompt env p pm w = (Inl e, w\<lparr>trace := trace w @ chat # cs\<rparr>)"
        using Pair Inl w1 by simp
      show g: "generateImage env p w = (Inl e, w\<lparr>trace := trace w @ chat # cs\<rparr>)"
        using o by (simp add: generateImage_run pm_def)
      show "generate3DModel env p w = (Inl e, w\<lparr>trace := trace w @ chat # cs @ [caughtM e]\<rparr>)"
        using g by (simp add: generate3DModel_run logAndRethrow_run caughtM_def)
    qed
  next
    case (Inr opt)
    with Pair have o: "optimizePrompt env p pm w = (Inr opt, w\<lparr>trace := trace w @ [chat, said opt]\<rparr>)"
      using optimizePrompt_InrD [of env p pm w opt w1] by (simp add: chat_def pm_def said_def)
    let ?img = "imageRequest env (imageForm opt)"
    have gfail: "generateImage env p w = (Inl e, w\<lparr>trace := trace w @
          [chat, said opt, AxiosPost ?img, caughtI e]\<rparr>)"
      if "axios_arraybuffer env ?img = Rejected e
       \<or> (\<exists>r. axios_arraybuffer env ?img = Resolved r
              \<and> status r \<noteq> 200
              \<and> e = Error (js ''Image generation failed: '' @ showNat (status r)
                            @ js '' - '' @ buffer_toString env (data r)))" for e
      using that o by (auto simp: generateImage_run pm_def Let_def caughtI_def)
    have mfail: "generate3DModel env p w = (Inl e, w\<lparr>trace := trace w @
          [chat, said opt, AxiosPost ?img, caughtI e, caughtM e]\<rparr>)"
      if "generateImage env p w = (Inl e, w\<lparr>trace := trace w @
          [chat, said opt, AxiosPost ?img, caughtI e]\<rparr>)" for e
      using that by (simp add: generate3DModel_run logAndRethrow_run caughtM_def)
    show ?thesis
    proof (cases "axios_arraybuffer env ?img")
      case (Rejected e)
      then show ?thesis
        using image_failed [of opt e] o gfail [of e] mfail [of e] by blast
    next
      case (Resolved ri)
      show ?thesis
      proof (cases "status ri = 200")
        case False
        let ?e = "Error (js ''Image generation failed: '' @ showNat (status ri)
                            @ js '' - '' @ buffer_toString env (data ri))"
        from Resolved False show ?thesis
          using image_failed [of opt ?e] o gfail [of ?e] mfail [of ?e] by blast
      next
        case True
        show ?thesis
        proof (cases "fs_writeFileSync env png (data ri)")
          case (Refused e left)
          have g: "generateImage env p w = (Inl e, w\<lparr>files := (files w)(png := left),
              trace := trace w @ [chat, said opt, AxiosPost ?img, WriteFileSync png (data ri),
                caughtI e]\<rparr>)"
            using o Resolved True Refused
            by (simp add: generateImage_run pm_def Let_def png_def caughtI_def)
          then have "generate3DModel env p w = (Inl e, w\<lparr>files := (files w)(png := left),
              trace := trace w @ [chat, said opt, AxiosPost ?img, WriteFileSync png (data ri),
                caughtI e, caughtM e]\<rparr>)"
            by (simp add: generate3DModel_run logAndRethrow_run caughtM_def)
          with g show ?thesis
            using image_write_refused [of opt ri e left] o Resolved True Refused by blast
        next
          case Written
          have g: "generateImage env p w = (Inr png, w\<lparr>files := (files w)(png \<mapsto> data ri),
              trace := trace w @ [chat, said opt, AxiosPost ?img, WriteFileSync png (data ri), saved]\<rparr>)"
            using o Resolved True Written
            by (simp add: generateImage_run pm_def Let_def png_def saved_def)
          have mcaught: "generate3DModel env p w = (Inl e, w\<lparr>files := (files w)(png \<mapsto> data ri),
              trace := trace w @ [chat, said opt, AxiosPost ?img, WriteFileSync png (data ri), saved,
                using, CreateReadStream png, AxiosPost m3d, caughtM e]\<rparr>)"
            if "axios_arraybuffer env m3d = Rejected e
               \<or> (\<exists>r. axios_arraybuffer env m3d = Resolved r
                \<and> status r \<noteq> 200
                \<and> e = Error (js ''3D model generation failed: '' @ showNat (status r)
                              @ js '' - '' @ buffer_toString env (data r)))" for e
            using that g
            by (auto simp: generate3DModel_run imageTo3DModel_run logAndRethrow_run Let_def
                  caughtM_def using_def m3d_def)
          show ?thesis
          proof (cases "axios_arraybuffer env m3d")
            case (Rejected e)
            then show ?thesis
              using model_failed [of opt ri e] o Resolved True Written g mcaught [of e] by blast
          next
            case rm: (Resolved rm)
            show ?thesis
            proof (cases "status rm = 200")
              case False
              let ?e = "Error (js ''3D model generation failed: '' @ showNat (status rm)
                              @ js '' - '' @ buffer_toString env (data rm))"
              from rm False show ?thesis
                using model_failed [of opt ri ?e] o Resolved True Written g mcaught [of ?e]
                by blast
            next
              case ok: True
              show ?thesis
              proof (cases "fs_writeFileSync env glb (data rm)")
                case refused: (Refused e left)
                have "generate3DModel env p w =
                   (Inl e, w\<lparr>files := (files w)(png \<mapsto> data ri, glb := left),
                    trace := trace w @
                    [chat, said opt, AxiosPost ?img, WriteFileSync png (data ri), saved, using,
                     CreateReadStream png, AxiosPost m3d, WriteFileSync glb (data rm),
                     caughtM e]\<rparr>)"
                  using g rm ok refused
                  by (simp add: generate3DModel_run imageTo3DModel_run logAndRethrow_run Let_def
                        using_def m3d_def glb_def caughtM_def)
                then show ?thesis
                  using model_write_refused [of opt ri rm e left] o Resolved True Written rm ok
                    refused g
                  by blast
              next
                case written: Written
                have "generate3DModel env p w =
                   (Inr glb, w\<lparr>files := (files w)(png \<mapsto> data ri, glb \<mapsto> data rm),
                    trace := trace w @
                    [chat, said opt, AxiosPost ?img, WriteFileSync png (data ri), saved, using,
                     CreateReadStream png, AxiosPost m3d, WriteFileSync glb (data rm), done1,
                     done2]\<rparr>)"
                  using g rm ok written
                  by (simp add: generate3DModel_run imageTo3DModel_run Let_def
                        using_def m3d_def glb_def done1_def done2_def)
                then show ?thesis
                  using succeeded [of opt ri rm] o Resolved True Written rm ok written g
                  by blast
              qed
            qed
          qed
        qed
      qed
    qed
  qed
qed

lemma console_not_post: "isConsole ev \<Longrightarrow> \<not> isPostTo u ev"
  by (cases ev) simp_all


lemma console_neq [simp]:
  "isConsole ev \<Longrightarrow> ev \<noteq> AxiosPost req"
  "isConsole ev \<Longrightarrow> ev \<noteq> WriteFileSync q d"
  by auto

lemma showNat_500: "showNat 500 = js ''500''"
  by (simp add: showNat.simps js_def)

lemma generateImage_v2_run:
  "generateImage_v2 env p w =
     (let req = imageRequest env (imageForm_v2 env p);
          png = path_resolve env (dirname env) (pngFileName p);
          caught = (\<lambda>e. (Inl e, w\<lparr>trace := trace w @
             [AxiosPost req, ConsoleError [Text (js ''Error generating image:''), Thrown e]]\<rparr>))
      in case axios_arraybuffer env req of
           Rejected e \<Rightarrow> caught e
         | Resolved r \<Rightarrow>
             if status r = 200 then
               (case fs_writeFileSync env png (data r) of
                  Written \<Rightarrow>
                    (Inr png, w\<lparr>files := (files w)(png \<mapsto> data r),
                       trace := trace w @
                         [AxiosPost req, WriteFileSync png (data r),
                          ConsoleLog [Text (js ''Image generated successfully at: '' @ png
                                       @ js '' (Elapsed Time: ''), Seconds, Text (js ''s)'')]]\<rparr>)
                | Refused e left \<Rightarrow>
                    (Inl e, w\<lparr>files := (files w)(png := left),
                       trace := trace w @
                         [AxiosPost req, WriteFileSync png (data r),
                          ConsoleError [Text (js ''Error generating image:''), Thrown e]]\<rparr>))
             else caught (Error (js ''Image generation failed: '' @ showNat (status r)
                                 @ js '' - '' @ buffer_toString env (data r))))"
  by (simp add: generateImage_v2_def generateImage_v2_try_def saveImage_def io_defs Let_def
           split: settled.splits sum.splits prod.splits write_result.splits)

lemma generate3DModel_v2_run:
  "generate3DModel_v2 env p w =
     (case generateImage_v2 env p w of
        (Inl e, w1) \<Rightarrow> logAndRethrow (js ''Error generating 3D model:'') e w1
      | (Inr png, w1) \<Rightarrow>
          (case imageTo3DModel env p png w1 of
             (Inl e, w2) \<Rightarrow> logAndRethrow (js ''Error generating 3D model:'') e w2
           | (Inr glb, w2) \<Rightarrow> (Inr glb, w2)))"
  by (simp add: generate3DModel_v2_def generate3DModel_v2_try_def bind_io_def catch_io_def
           split: sum.splits prod.splits)

lemma generate3DModel_v2_scenarios:
  fixes env p w
  defines "img \<equiv> imageRequest env (imageForm_v2 env p)"
    and "png \<equiv> path_resolve env (dirname env) (pngFileName p)"
    and "glb \<equiv> path_resolve env (dirname env) (glbFileName p)"
  defines "m3d \<equiv> model3dRequest env (model3dForm (ReadStream png))"
    and "caughtI \<equiv> (\<lambda>e. ConsoleError [Text (js ''Error generating image:''), Thrown e])"
    and "caughtM \<equiv> (\<lambda>e. ConsoleError [Text (js ''Error generating 3D model:''), Thrown e])"
    and "saved \<equiv> ConsoleLog [Text (js ''Image generated successfully at: '' @ png
                       @ js '' (Elapsed Time: ''), Seconds, Text (js ''s)'')]"
    and "using \<equiv> ConsoleLog [Text (js ''Using generated image: '' @ png)]"
    and "done1 \<equiv> ConsoleLog [Text (js ''3D model generated successfully at: '' @ glb)]"
    and "done2 \<equiv> ConsoleLog [Text (js ''Elapsed Time - Image Generation: ''), Seconds,
                                 Text (js ''s, Model Generation: ''), Seconds,
                                 Text (js ''s, Total: ''), Seconds, Text (js ''s'')]"
  obtains
    (image_failed) e where
      "axios_arraybuffer env img = Rejected e
       \<or> (\<exists>r. axios_arraybuffer env img = Resolved r
              \<and> status r \<noteq> 200
              \<and> e = Error (js ''Image generation failed: '' @ showNat (status r)
                            @ js '' - '' @ buffer_toString env (data r)))"
      "generateImage_v2 env p w = (Inl e, w\<lparr>trace := trace w @ [AxiosPost img, caughtI e]\<rparr>)"
      "generate3DModel_v2 env p w =
         (Inl e, w\<lparr>trace := trace w @ [AxiosPost img, caughtI e, caughtM e]\<rparr>)"
  | (image_write_refused) ri e left where
      "axios_arraybuffer env img = Resolved ri"
      "status ri = 200"
      "fs_writeFileSync env png (data ri) = Refused e left"
      "generateImage_v2 env p w = (Inl e, w\<lparr>files := (files w)(png := left),
          trace := trace w @ [AxiosPost img, WriteFileSync png (data ri), caughtI e]\<rparr>)"
      "generate3DModel_v2 env p w = (Inl e, w\<lparr>files := (files w)(png := left),
          trace := trace w @ [AxiosPost img, WriteFileSync png (data ri), caughtI e,
            caughtM e]\<rparr>)"
  | (model_failed) ri e where
      "axios_arraybuffer env img = Resolved ri"
      "status ri = 200"
      "fs_writeFileSync env png (data ri) = Written"
      "axios_arraybuffer env m3d = Rejected e
       \<or> (\<exists>r. axios_arraybuffer env m3d = Resolved r
              \<and> status r \<noteq> 200
              \<and> e = Error (js ''3D model generation failed: '' @ showNat (status r)
                            @ js '' - '' @ buffer_toString env (data r)))"
      "generateImage_v2 env p w = (Inr png, w\<lparr>files := (files w)(png \<mapsto> data ri),
          trace := trace w @ [AxiosPost img, WriteFileSync png (data ri), saved]\<rparr>)"
      "generate3DModel_v2 env p w = (Inl e, w\<lparr>files := (files w)(png \<mapsto> data ri),
          trace := trace w @ [AxiosPost img, WriteFileSync png (data ri), saved, using,
            CreateReadStream png, AxiosPost m3d, caughtM e]\<rparr>)"
  | (model_write_refused) ri rm e left where
      "axios_arraybuffer env img = Resolved ri"
      "status ri = 200"
      "fs_writeFileSync env png (data ri) = Written"
      "axios_arraybuffer env m3d = Resolved rm"
      "status rm = 200"
      "fs_writeFileSync env glb (data rm) = Refused e left"
      "generateImage_v2 env p w = (Inr png, w\<lparr>files := (files w)(png \<mapsto> data ri),
          trace := trace w @ [AxiosPost img, WriteFileSync png (data ri), saved]\<rparr>)"
      "generate3DModel_v2 env p w =
         (Inl e, w\<lparr>files := (files w)(png \<mapsto> data ri, glb := left),
          trace := trace w @ [AxiosPost img, WriteFileSync png (data ri), saved, using,
            CreateReadStream png, AxiosPost m3d, WriteFileSync glb (data rm), caughtM e]\<rparr>)"
  | (succeeded) ri rm where
      "axios_arraybuffer env img = Resolved ri"
      "status ri = 200"
      "fs_writeFileSync env png (data ri) = Written"
      "axios_arraybuffer env m3d = Resolved rm"
      "status rm = 200"
      "fs_writeFileSync env glb (data rm) = Written"
      "generateImage_v2 env p w = (Inr png, w\<lparr>files := (files w)(png \<mapsto> data ri),
          trace := trace w @ [AxiosPost img, WriteFileSync png (data ri), saved]\<rparr>)"
      "generate3DModel_v2 env p w =
         (Inr glb, w\<lparr>files := (files w)(png \<mapsto> data ri, glb \<mapsto> data rm),
          trace := trace w @ [AxiosPost img, WriteFileSync png (data ri), saved, using,
            CreateReadStream png, AxiosPost m3d, WriteFileSync glb (data rm), done1, done2]\<rparr>)"
proof -
  have gfail: "generateImage_v2 env p w = (Inl e, w\<lparr>trace := trace w @ [AxiosPost img, caughtI e]\<rparr>)"
    if "axios_arraybuffer env img = Rejected e
       \<or> (\<exists>r. axios_arraybuffer env img = Resolved r
              \<and> status r \<noteq> 200
              \<and> e = Error (js ''Image generation failed: '' @ showNat (status r)
                            @ js '' - '' @ buffer_toString env (data r)))" for e
    using that by (auto simp: generateImage_v2_run Let_def caughtI_def img_def)
  have mfail: "generate3DModel_v2 env p w =
         (Inl e, w\<lparr>trace := trace w @ [AxiosPost img, caughtI e, caughtM e]\<rparr>)"
    if "generateImage_v2 env p w = (Inl e, w\<lparr>trace := trace w @ [AxiosPost img, caughtI e]\<rparr>)"
    for e
    using that by (simp add: generate3DModel_v2_run logAndRethrow_run caughtM_def)
  show ?thesis
  proof (cases "axios_arraybuffer env img")
    case (Rejected e)
    then show ?thesis using image_failed [of e] gfail [of e] mfail [of e] by blast
  next
    case (Resolved ri)
    show ?thesis
    proof (cases "status ri = 200")
      case False
      let ?e = "Error (js ''Image generation failed: '' @ showNat (status ri)
                            @ js '' - '' @ buffer_toString env (data ri))"
      from Resolved False show ?thesis
        using image_failed [of ?e] gfail [of ?e] mfail [of ?e] by blast
    next
      case True
      show ?thesis
      proof (cases "fs_writeFileSync env png (data ri)")
        case (Refused e left)
        have g: "generateImage_v2 env p w = (Inl e, w\<lparr>files := (files w)(png := left),
            trace := trace w @ [AxiosPost img, WriteFileSync png (data ri), caughtI e]\<rparr>)"
          using Resolved True Refused
          by (simp add: generateImage_v2_run Let_def png_def caughtI_def img_def)
        then have "generate3DModel_v2 env p w = (Inl e, w\<lparr>files := (files w)(png := left),
            trace := trace w @ [AxiosPost img, WriteFileSync png (data ri), caughtI e,
              caughtM e]\<rparr>)"
          by (simp add: generate3DModel_v2_run logAndRethrow_run caughtM_def)
        with g show ?thesis
          using image_write_refused [of ri e left] Resolved True Refused by blast
      next
        case Written
        have g: "generateImage_v2 env p w = (Inr png, w\<lparr>files := (files w)(png \<mapsto> data ri),
            trace := trace w @ [AxiosPost img, WriteFileSync png (data ri), saved]\<rparr>)"
          using Resolved True Written
          by (simp add: generateImage_v2_run Let_def png_def saved_def img_def)
        have mcaught: "generate3DModel_v2 env p w = (Inl e, w\<lparr>files := (files w)(png \<mapsto> data ri),
            trace := trace w @ [AxiosPost img, WriteFileSync png (data ri), saved, using,
              CreateReadStream png, AxiosPost m3d, caughtM e]\<rparr>)"
          if "axios_arraybuffer env m3d = Rejected e
               \<or> (\<exists>r. axios_arraybuffer env m3d = Resolved r
                \<and> status r \<noteq> 200
                \<and> e = Error (js ''3D model generation failed: '' @ showNat (status r)
                              @ js '' - '' @ buffer_toString env (data r)))" for e
          using that g
          by (auto simp: generate3DModel_v2_run imageTo3DModel_run logAndRethrow_run Let_def
                caughtM_def using_def m3d_def)
        show ?thesis
        proof (cases "axios_arraybuffer env m3d")
          case (Rejected e)
          then show ?thesis
            using model_failed [of ri e] Resolved True Written g mcaught [of e] by blast
        next
          case rm: (Resolved rm)
          show ?thesis
          proof (cases "status rm = 200")
            case False
            let ?e = "Error (js ''3D model generation failed: '' @ showNat (status rm)
                              @ js '' - '' @ buffer_toString env (data rm))"
            from rm False show ?thesis
              using model_failed [of ri ?e] Resolved True Written g mcaught [of ?e] by blast
          next
            case ok: True
            show ?thesis
            proof (cases "fs_writeFileSync env glb (data rm)")
              case refused: (Refused e left)
              have "generate3DModel_v2 env p w =
                 (Inl e, w\<lparr>files := (files w)(png \<mapsto> data ri, glb := left),
                  trace := trace w @ [AxiosPost img, WriteFileSync png (data ri), saved, using,
                    CreateReadStream png, AxiosPost m3d, WriteFileSync glb (data rm),
                    caughtM e]\<rparr>)"
                using g rm ok refused
                by (simp add: generate3DModel_v2_run imageTo3DModel_run logAndRethrow_run Let_def
                      using_def m3d_def glb_def caughtM_def)
              then show ?thesis
                using model_write_refused [of ri rm e left] Resolved True Written rm ok refused g
                by blast
            next
              case written: Written
              have "generate3DModel_v2 env p w =
                 (Inr glb, w\<lparr>files := (files w)(png \<mapsto> data ri, glb \<mapsto> data rm),
                  trace := trace w @ [AxiosPost img, WriteFileSync png (data ri), saved, using,
                    CreateReadStream png, AxiosPost m3d, WriteFileSync glb (data rm), done1,
                    done2]\<rparr>)"
                using g rm ok written
                by (simp add: generate3DModel_v2_run imageTo3DModel_run Let_def
                      using_def m3d_def glb_def done1_def done2_def)
              then show ?thesis
                using succeeded [of ri rm] Resolved True Written rm ok written g by blast
            qed
          qed
        qed
      qed
    qed
  qed
qed

lemma generateImage_InrD:
  assumes "generateImage env p w = (Inr a, w1)"
  shows "a = path_resolve env (dirname env) (pngFileName p)
         \<and> (\<exists>d evs. files w1 = (files w)(a \<mapsto> d) \<and> trace w1 = trace w @ evs
                \<and> filter isWrite evs = [WriteFileSync a d])"
proof (cases rule: generate3DModel_scenarios [of env p w])
  case (optimizer_failed e cs)
  with assms show ?thesis by simp
next
  case (image_failed opt e)
  with assms show ?thesis by simp
next
  case (image_write_refused opt ri0 e left)
  with assms show ?thesis by simp
next
  case (model_failed opt ri e)
  with assms show ?thesis by auto
next
  case (model_write_refused opt ri rm0 e left)
  with assms show ?thesis by auto
next
  case (succeeded opt ri rm)
  with assms show ?thesis by auto
qed

lemma generate3DModel_InrD:
  assumes "generate3DModel env p w = (Inr b, w2)"
  shows "b = path_resolve env (dirname env) (glbFileName p)
         \<and> (\<exists>d1 d2 evs.
               files w2 = (files w)(path_resolve env (dirname env) (pngFileName p) \<mapsto> d1, b \<mapsto> d2)
               \<and> trace w2 = trace w @ evs
               \<and> filter isWrite evs
                   = [WriteFileSync (path_resolve env (dirname env) (pngFileName p)) d1,
                      WriteFileSync b d2])"
proof (cases rule: generate3DModel_scenarios [of env p w])
  case (optimizer_failed e cs)
  with assms show ?thesis by simp
next
  case (image_failed opt e)
  with assms show ?thesis by simp
next
  case (image_write_refused opt ri0 e left)
  with assms show ?thesis by simp
next
  case (model_failed opt ri e)
  with assms show ?thesis by simp
next
  case (model_write_refused opt ri rm0 e left)
  with assms show ?thesis by simp
next
  case (succeeded opt ri rm)
  with assms show ?thesis by auto
qed

lemma newEvents_extends: "trace w' = trace w @ evs \<Longrightarrow> newEvents w w' = evs"
  by (simp add: newEvents_def)

lemma filter_singleton_mem: "filter P xs = [x] \<Longrightarrow> x \<in> set xs"
proof -
  assume "filter P xs = [x]"
  then have "x \<in> set (filter P xs)" by simp
  then show ?thesis by simp
qed

lemma filter_last_mem: "filter P xs = [y, x] \<Longrightarrow> x \<in> set xs"
proof -
  assume "filter P xs = [y, x]"
  then have "x \<in> set (filter P xs)" by simp
  then show ?thesis by simp
qed

lemma console_filter_post: "\<forall>ev\<in>set cs. isConsole ev \<Longrightarrow> filter (isPostTo u) cs = []"
  by (induction cs) (auto simp: console_not_post)


lemma posts_at_most_once:
  "length (filter (isPostTo u) (newEvents w (snd (generate3DModel env p w)))) \<le> 1"
proof (cases rule: generate3DModel_scenarios [of env p w])
  case (optimizer_failed e cs)
  then show ?thesis by (simp add: console_filter_post)
next
  case (image_failed opt e)
  then show ?thesis by auto
next
  case (image_write_refused opt ri0 e left)
  then show ?thesis by auto
next
  case (model_failed opt ri e)
  then show ?thesis by auto
next
  case (model_write_refused opt ri rm0 e left)
  then show ?thesis by auto
next
  case (succeeded opt ri rm)
  then show ?thesis by auto
qed

lemma after_prefix:
  assumes "\<forall>ev\<in>set A. \<not> Q ev" and "i < length (A @ B)" and "Q ((A @ B) ! i)"
  shows "length A \<le> i"
proof (rule ccontr)
  assume "\<not> length A \<le> i"
  then have "i < length A" by simp
  then have "(A @ B) ! i \<in> set A" by (simp add: nth_append)
  with assms show False by blast
qed

lemma model3d_post_after_image:
  fixes env p w
  defines "evs \<equiv> newEvents w (snd (generate3DModel env p w))"
  shows "(\<forall>ev\<in>set evs. \<not> isPostTo model3dApiUrl ev)
         \<or> (\<exists>png w1 d B. generateImage env p w = (Inr png, w1)
               \<and> evs = newEvents w w1 @ B
               \<and> (\<forall>ev\<in>set (newEvents w w1). \<not> isPostTo model3dApiUrl ev)
               \<and> WriteFileSync png d \<in> set (newEvents w w1)
               \<and> files w1 png = Some d)"
proof (cases rule: generate3DModel_scenarios [of env p w])
  case (optimizer_failed e cs)
  then show ?thesis by (auto simp: evs_def console_not_post)
next
  case (image_failed opt e)
  then show ?thesis by (simp add: evs_def)
next
  case (image_write_refused opt ri0 e left)
  then show ?thesis by (simp add: evs_def)
next
  case (model_failed opt ri e)
  then show ?thesis by (simp add: evs_def)
next
  case (model_write_refused opt ri rm0 e left)
  then show ?thesis by (simp add: evs_def)
next
  case (succeeded opt ri rm)
  then show ?thesis by (simp add: evs_def)
qed

lemma image_post_after_optimizer:
  fixes env p w
  defines "evs \<equiv> newEvents w (snd (generate3DModel env p w))"
  shows "(\<forall>ev\<in>set evs. \<not> isPostTo imageApiUrl ev)
         \<or> (\<exists>opt w0 B. optimizePrompt env p (promptModifierImage env) w = (Inr opt, w0)
               \<and> evs = newEvents w w0 @ B
               \<and> (\<forall>ev\<in>set (newEvents w w0). \<not> isPostTo imageApiUrl ev)
               \<and> AxiosPost (chatRequest env p (promptModifierImage env))
                     \<in> set (newEvents w w0))"
proof (cases rule: generate3DModel_scenarios [of env p w])
  case (optimizer_failed e cs)
  then show ?thesis by (auto simp: evs_def console_not_post)
next
  case (image_failed opt e)
  then show ?thesis by (simp add: evs_def)
next
  case (image_write_refused opt ri0 e left)
  then show ?thesis by (simp add: evs_def)
next
  case (model_failed opt ri e)
  then show ?thesis by (simp add: evs_def)
next
  case (model_write_refused opt ri rm0 e left)
  then show ?thesis by (simp add: evs_def)
next
  case (succeeded opt ri rm)
  then show ?thesis by (simp add: evs_def)
qed

section \<open>The sample runs\<close>

lemma demo_choice:
  "choiceContentTrimmed demoChatBody = Inr (js ''a shiny red cube, studio light'')"
  by (simp add: choiceContentTrimmed_def demoChatBody_def bindE_def trim_def
        isWhiteSpace_def js_def)

lemma demo_sanitize: "sanitizeFileName (js ''a red cube'') = js ''a_red_cube''"
  by (simp add: sanitizeFileName_def substring0_def replaceNonAlnum_def trim_def
        isWhiteSpace_def isAlnum_def js_def)

lemmas demo_envs = demoEnv_def demoEnvLater_def demoEnv3dDown_def demoEnvNoImage_def
  demoEnvChatDown_def demoEnv3dRejected_def

lemmas demo_simps = generate3DModel_run imageTo3DModel_run generateImage_run
  optimizePrompt_run logAndRethrow_run demo_envs demo_choice Let_def pngFileName_def
  glbFileName_def demo_sanitize

lemma demo_image_run:
  "fst (generateImage demoEnv (js ''a red cube'') w) = Inr (js ''/app/dist/gen_a_red_cube.png'')"
  "files (snd (generateImage demoEnv (js ''a red cube'') w))
     = (files w)(js ''/app/dist/gen_a_red_cube.png'' \<mapsto> [0x89, 0x50, 0x4E, 0x47])"
  by (simp_all add: demo_simps) (simp_all add: js_def)

lemma demo_image_later_run:
  "fst (generateImage demoEnvLater (js ''a red cube'') w)
     = Inr (js ''/app/dist/gen_a_red_cube.png'')"
  "files (snd (generateImage demoEnvLater (js ''a red cube'') w))
     = (files w)(js ''/app/dist/gen_a_red_cube.png'' \<mapsto> [0x89, 0x50, 0x4E, 0x47, 0x0D])"
  by (simp_all add: demo_simps) (simp_all add: js_def)

lemma demo_model_run:
  "fst (generate3DModel demoEnv (js ''a red cube'') w)
     = Inr (js ''/app/dist/gen_a_red_cube.glb'')"
  "files (snd (generate3DModel demoEnv (js ''a red cube'') w))
     = (files w)(js ''/app/dist/gen_a_red_cube.png'' \<mapsto> [0x89, 0x50, 0x4E, 0x47],
                 js ''/app/dist/gen_a_red_cube.glb'' \<mapsto> [0x67, 0x6C, 0x54, 0x46])"
  by (simp_all add: demo_simps) (simp_all add: js_def)

lemma demo_model_later_run:
  "fst (generate3DModel demoEnvLater (js ''a red cube'') w)
     = Inr (js ''/app/dist/gen_a_red_cube.glb'')"
  "files (snd (generate3DModel demoEnvLater (js ''a red cube'') w))
     = (files w)(js ''/app/dist/gen_a_red_cube.png'' \<mapsto> [0x89, 0x50, 0x4E, 0x47, 0x0D],
                 js ''/app/dist/gen_a_red_cube.glb'' \<mapsto> [0x67, 0x6C, 0x54, 0x46, 0x02])"
  by (simp_all add: demo_simps) (simp_all add: js_def)



lemma demo_3d_down_run:
  "fst (generateImage demoEnv3dDown (js ''a red cube'') w)
     = Inr (js ''/app/dist/gen_a_red_cube.png'')"
  "files (snd (generateImage demoEnv3dDown (js ''a red cube'') w))
     = (files w)(js ''/app/dist/gen_a_red_cube.png'' \<mapsto> [0x89, 0x50, 0x4E, 0x47])"
  "fst (generate3DModel demoEnv3dDown (js ''a red cube'') w)
     = Inl (Error (js ''3D model generation failed: 500 - fail''))"
  "files (snd (generate3DModel demoEnv3dDown (js ''a red cube'') w))
     = (files w)(js ''/app/dist/gen_a_red_cube.png'' \<mapsto> [0x89, 0x50, 0x4E, 0x47])"
  by (simp_all add: demo_simps showNat_500) (simp_all add: js_def)

lemma demo_3d_rejected_run:
  "fst (generateImage demoEnv3dRejected (js ''a red cube'') w)
     = Inr (js ''/app/dist/gen_a_red_cube.png'')"
  "files (snd (generateImage demoEnv3dRejected (js ''a red cube'') w))
     = (files w)(js ''/app/dist/gen_a_red_cube.png'' \<mapsto> [0x89, 0x50, 0x4E, 0x47])"
  "fst (generate3DModel demoEnv3dRejected (js ''a red cube'') w)
     = Inl (AxiosError (js ''Request failed with status code 500''))"
  "files (snd (generate3DModel demoEnv3dRejected (js ''a red cube'') w))
     = (files w)(js ''/app/dist/gen_a_red_cube.png'' \<mapsto> [0x89, 0x50, 0x4E, 0x47])"
  by (simp_all add: demo_simps) (simp_all add: js_def)

lemma demo_is_dir_run:
  "fst (generate3DModel demoEnvIsDir (js ''a red cube'') w)
     = Inl (Error (js ''EISDIR: illegal operation on a directory, open''))"
  "files (snd (generate3DModel demoEnvIsDir (js ''a red cube'') w))
     = (files w)(js ''/app/dist/gen_a_red_cube.png'' := None)"
  "filter (isPostTo model3dApiUrl)
     (newEvents w (snd (generate3DModel demoEnvIsDir (js ''a red cube'') w))) = []"
proof -
  let ?p = "js ''a red cube''"
  let ?png = "js ''/app/dist/gen_a_red_cube.png''"
  let ?e = "Error (js ''EISDIR: illegal operation on a directory, open'')"
  have png: "path_resolve demoEnvIsDir (dirname demoEnvIsDir) (pngFileName ?p) = ?png"
    by (simp add: demoEnvIsDir_def demoEnv_def pngFileName_def demo_sanitize)
       (simp add: js_def)
  have chat: "axios_json demoEnvIsDir req = Resolved \<lparr>status = 200, data = demoChatBody\<rparr>"
    for req by (simp add: demoEnvIsDir_def demoEnv_def)
  have image: "axios_arraybuffer demoEnvIsDir (imageRequest demoEnvIsDir form)
                 = Resolved \<lparr>status = 200, data = [0x89, 0x50, 0x4E, 0x47]\<rparr>" for form
    by (simp add: demoEnvIsDir_def demoEnv_def)
  have refused: "fs_writeFileSync demoEnvIsDir ?png bytes = Refused ?e None" for bytes
    by (simp add: demoEnvIsDir_def)
  have run: "generate3DModel demoEnvIsDir ?p w =
      (Inl ?e, w\<lparr>files := (files w)(?png := None),
         trace := trace w @
           [AxiosPost (chatRequest demoEnvIsDir ?p (promptModifierImage demoEnvIsDir)),
            ConsoleLog [Text (js ''Optimized Prompt: '' @ js ''a shiny red cube, studio light'')],
            AxiosPost (imageRequest demoEnvIsDir
                         (imageForm (js ''a shiny red cube, studio light''))),
            WriteFileSync ?png [0x89, 0x50, 0x4E, 0x47],
            ConsoleError [Text (js ''Error generating image:''), Thrown ?e],
            ConsoleError [Text (js ''Error generating 3D model:''), Thrown ?e]]\<rparr>)"
    by (simp add: generate3DModel_run generateImage_run optimizePrompt_run logAndRethrow_run
          Let_def chat image png refused demo_choice)
  show "fst (generate3DModel demoEnvIsDir ?p w) = Inl ?e"
    by (simp add: run)
  show "files (snd (generate3DModel demoEnvIsDir ?p w)) = (files w)(?png := None)"
    by (simp add: run)
  show "filter (isPostTo model3dApiUrl)
     (newEvents w (snd (generate3DModel demoEnvIsDir ?p w))) = []"
    by (simp add: run)
qed

lemma demo_chat_down_run:
  "optimizePrompt_try demoEnvChatDown (js ''a red cube'') m emptyWorld
     = (Inl (AxiosError (js ''Network Error'')),
        \<lparr>files = Map.empty, trace = [AxiosPost (chatRequest demoEnvChatDown (js ''a red cube'') m)]\<rparr>)"
  by (simp add: optimizePrompt_try_def io_defs demo_envs emptyWorld_def)


lemma demo_model_trace:
  "newEvents emptyWorld (snd (generate3DModel demoEnv (js ''a red cube'') emptyWorld)) ! 7
     = AxiosPost (model3dRequest demoEnv
         (model3dForm (ReadStream (js ''/app/dist/gen_a_red_cube.png''))))"
  "length (newEvents emptyWorld (snd (generate3DModel demoEnv (js ''a red cube'') emptyWorld)))
     = 11"
  "newEvents emptyWorld (snd (generate3DModel demoEnv (js ''a red cube'') emptyWorld)) ! 2
     = AxiosPost (imageRequest demoEnv (imageForm (js ''a shiny red cube, studio light'')))"
  "filter isWrite
     (newEvents emptyWorld (snd (generate3DModel demoEnv (js ''a red cube'') emptyWorld)))
     = [WriteFileSync (js ''/app/dist/gen_a_red_cube.png'') [0x89, 0x50, 0x4E, 0x47],
        WriteFileSync (js ''/app/dist/gen_a_red_cube.glb'') [0x67, 0x6C, 0x54, 0x46]]"
  by (simp_all add: demo_simps newEvents_def emptyWorld_def) (simp_all add: js_def)

lemma demo_image_trace:
  "length (newEvents emptyWorld (snd (generateImage demoEnv (js ''a red cube'') emptyWorld)))
     = 5"
  "length (newEvents emptyWorld
     (snd (optimizePrompt demoEnv (js ''a red cube'') (promptModifierImage demoEnv) emptyWorld)))
     = 2"
  "fst (optimizePrompt demoEnv (js ''a red cube'') (promptModifierImage demoEnv) emptyWorld)
     = Inr (js ''a shiny red cube, studio light'')"
  by (simp_all add: demo_simps newEvents_def emptyWorld_def)

section \<open>The claims\<close>

text \<open>
  C1. The file name is a function of the prompt alone. \<open>sanitizeFileName\<close> gives the
  first 20 code units of the trimmed prompt (all of them when there are fewer), each one
  kept when it is in \<open>[a-zA-Z0-9]\<close> and replaced by \<open>_\<close> otherwise. Two successful
  calls of \<open>generateImage\<close> with the same prompt, in the same directory, whatever the
  endpoints answer, return the same path, and the second call writes its bytes over the
  file of the first; the same holds for \<open>generate3DModel\<close> and the \<open>.glb\<close> file.
\<close>

theorem same_prompt_same_path:
  assumes "dirname env2 = dirname env1" and "path_resolve env2 = path_resolve env1"
  shows
   "length (sanitizeFileName p) = min 20 (length (trim p))
    \<and> (\<forall>i<length (sanitizeFileName p).
          sanitizeFileName p ! i = (if isAlnum (trim p ! i) then trim p ! i else 0x5F))
    \<and> (\<forall>a b w1 w2.
          generateImage env1 p w = (Inr a, w1) \<and> generateImage env2 p w1 = (Inr b, w2) \<longrightarrow>
          a = path_resolve env1 (dirname env1) (js ''gen_'' @ sanitizeFileName p @ js ''.png'')
          \<and> b = a
          \<and> (\<exists>d1 d2. files w1 a = Some d1 \<and> WriteFileSync a d2 \<in> set (newEvents w1 w2)
                \<and> files w2 a = Some d2))
    \<and> (\<forall>a b w1 w2.
          generate3DModel env1 p w = (Inr a, w1) \<and> generate3DModel env2 p w1 = (Inr b, w2) \<longrightarrow>
          a = path_resolve env1 (dirname env1) (js ''gen_'' @ sanitizeFileName p @ js ''.glb'')
          \<and> b = a
          \<and> (\<exists>d1 d2. files w1 a = Some d1 \<and> WriteFileSync a d2 \<in> set (newEvents w1 w2)
                \<and> files w2 a = Some d2))"
proof (intro conjI allI impI)
  show "length (sanitizeFileName p) = min 20 (length (trim p))"
    by (simp add: sanitizeFileName_def substring0_def replaceNonAlnum_def)
  show "sanitizeFileName p ! i = (if isAlnum (trim p ! i) then trim p ! i else 0x5F)"
    if "i < length (sanitizeFileName p)" for i
    using that by (simp add: sanitizeFileName_def substring0_def replaceNonAlnum_def)
next
  fix a b w1 w2
  assume runs: "generateImage env1 p w = (Inr a, w1) \<and> generateImage env2 p w1 = (Inr b, w2)"
  from runs generateImage_InrD [of env1 p w a w1] obtain d1
    where a: "a = path_resolve env1 (dirname env1) (pngFileName p)"
      and f1: "files w1 = (files w)(a \<mapsto> d1)" by blast
  from runs generateImage_InrD [of env2 p w1 b w2] obtain d2 evs
    where b: "b = path_resolve env2 (dirname env2) (pngFileName p)"
      and f2: "files w2 = (files w1)(b \<mapsto> d2)" and t2: "trace w2 = trace w1 @ evs"
      and wr: "filter isWrite evs = [WriteFileSync b d2]" by blast
  show "a = path_resolve env1 (dirname env1) (js ''gen_'' @ sanitizeFileName p @ js ''.png'')"
    using a by (simp add: pngFileName_def)
  show ba: "b = a" using a b assms by simp
  have "WriteFileSync b d2 \<in> set (newEvents w1 w2)"
    using wr t2 by (simp add: newEvents_extends filter_singleton_mem)
  then show "\<exists>d1 d2. files w1 a = Some d1 \<and> WriteFileSync a d2 \<in> set (newEvents w1 w2)
                \<and> files w2 a = Some d2"
    using f1 f2 ba by auto
next
  fix a b w1 w2
  assume runs: "generate3DModel env1 p w = (Inr a, w1) \<and> generate3DModel env2 p w1 = (Inr b, w2)"
  from runs generate3DModel_InrD [of env1 p w a w1] obtain d0 d1
    where a: "a = path_resolve env1 (dirname env1) (glbFileName p)"
      and f1: "files w1 = (files w)(path_resolve env1 (dirname env1) (pngFileName p) \<mapsto> d0, a \<mapsto> d1)"
    by blast
  from runs generate3DModel_InrD [of env2 p w1 b w2] obtain d3 d2 evs
    where b: "b = path_resolve env2 (dirname env2) (glbFileName p)"
      and f2: "files w2 = (files w1)(path_resolve env2 (dirname env2) (pngFileName p) \<mapsto> d3, b \<mapsto> d2)"
      and t2: "trace w2 = trace w1 @ evs"
      and wr: "filter isWrite evs
                   = [WriteFileSync (path_resolve env2 (dirname env2) (pngFileName p)) d3,
                      WriteFileSync b d2]" by blast
  show "a = path_resolve env1 (dirname env1) (js ''gen_'' @ sanitizeFileName p @ js ''.glb'')"
    using a by (simp add: glbFileName_def)
  show ba: "b = a" using a b assms by simp
  have "WriteFileSync b d2 \<in> set (newEvents w1 w2)"
    using wr t2 by (simp add: newEvents_extends filter_last_mem)
  then show "\<exists>d1 d2. files w1 a = Some d1 \<and> WriteFileSync a d2 \<in> set (newEvents w1 w2)
                \<and> files w2 a = Some d2"
    using f1 f2 ba by auto
qed

theorem same_prompt_same_path_witness:
  "dirname demoEnvLater = dirname demoEnv
   \<and> path_resolve demoEnvLater = path_resolve demoEnv
   \<and> sanitizeFileName (js ''a red cube'') = js ''a_red_cube''
   \<and> fst (generateImage demoEnv (js ''a red cube'') emptyWorld)
       = Inr (js ''/app/dist/gen_a_red_cube.png'')
   \<and> fst (generateImage demoEnvLater (js ''a red cube'')
           (snd (generateImage demoEnv (js ''a red cube'') emptyWorld)))
       = Inr (js ''/app/dist/gen_a_red_cube.png'')
   \<and> files (snd (generateImage demoEnv (js ''a red cube'') emptyWorld))
         (js ''/app/dist/gen_a_red_cube.png'') = Some [0x89, 0x50, 0x4E, 0x47]
   \<and> files (snd (generateImage demoEnvLater (js ''a red cube'')
           (snd (generateImage demoEnv (js ''a red cube'') emptyWorld))))
         (js ''/app/dist/gen_a_red_cube.png'') = Some [0x89, 0x50, 0x4E, 0x47, 0x0D]
   \<and> fst (generate3DModel demoEnvLater (js ''a red cube'')
           (snd (generate3DModel demoEnv (js ''a red cube'') emptyWorld)))
       = Inr (js ''/app/dist/gen_a_red_cube.glb'')
   \<and> files (snd (generate3DModel demoEnvLater (js ''a red cube'')
           (snd (generate3DModel demoEnv (js ''a red cube'') emptyWorld))))
         (js ''/app/dist/gen_a_red_cube.glb'') = Some [0x67, 0x6C, 0x54, 0x46, 0x02]"
proof -
  have same: "dirname demoEnvLater = dirname demoEnv"
    "path_resolve demoEnvLater = path_resolve demoEnv"
    by (simp_all add: demoEnvLater_def)
  show ?thesis
    using same_prompt_same_path [OF same, of "js ''a red cube''" emptyWorld]
      same demo_sanitize demo_image_run demo_image_later_run demo_model_run
      demo_model_later_run
    by simp
qed



lemma v2_image_rejects_non200:
  assumes "axios_arraybuffer env (imageRequest env (imageForm_v2 env p)) = Resolved r"
    and "status r \<noteq> 200"
  shows "fst (generateImage_v2 env p w) =
           Inl (Error (js ''Image generation failed: '' @ showNat (status r) @ js '' - ''
                       @ buffer_toString env (data r)))
         \<and> files (snd (generateImage_v2 env p w)) = files w
         \<and> filter isWrite (newEvents w (snd (generateImage_v2 env p w))) = []"
  using assms by (simp add: generateImage_v2_run Let_def)

text \<open>
  C3. \<open>generateImage\<close> has returned the path of the \<open>.png\<close> file it wrote, and the 3D
  endpoint answers with status 500. When the HTTP client hands that answer to the program,
  \<open>generate3DModel\<close> rejects with the error \<open>3D model generation failed: 500 - \<close> followed
  by the body. When the client rejects the answer itself, as it does for a 500 the way the
  source calls it, \<open>generate3DModel\<close> rejects with the client's error, the same value. Either
  way the disk is as \<open>generateImage\<close> left it: the \<open>.png\<close> file is there, with the bytes that
  were written.
\<close>

theorem model3d_500_keeps_png:
  assumes "generateImage env p w = (Inr imagePath, w1)"
  shows "(axios_arraybuffer env (model3dRequest env (model3dForm (ReadStream imagePath)))
            = Resolved r
          \<and> status r = 500 \<longrightarrow>
            (\<exists>w2. generate3DModel env p w =
               (Inl (Error (js ''3D model generation failed: 500 - ''
                            @ buffer_toString env (data r))), w2)
             \<and> files w2 = files w1
             \<and> (\<exists>d. WriteFileSync imagePath d \<in> set (newEvents w w1)
                    \<and> files w1 imagePath = Some d \<and> files w2 imagePath = Some d)))
         \<and> (axios_arraybuffer env (model3dRequest env (model3dForm (ReadStream imagePath)))
               = Rejected e \<longrightarrow>
            (\<exists>w2. generate3DModel env p w = (Inl e, w2)
             \<and> files w2 = files w1
             \<and> (\<exists>d. WriteFileSync imagePath d \<in> set (newEvents w w1)
                    \<and> files w1 imagePath = Some d \<and> files w2 imagePath = Some d)))
         \<and> imagePath = path_resolve env (dirname env)
                          (js ''gen_'' @ sanitizeFileName p @ js ''.png'')"
proof (cases rule: generate3DModel_scenarios [of env p w])
  case (optimizer_failed e cs)
  with assms show ?thesis by auto
next
  case (image_failed opt e)
  with assms show ?thesis by auto
next
  case (image_write_refused opt ri0 e left)
  with assms show ?thesis by auto
next
  case (model_failed opt ri e)
  with assms show ?thesis by (auto simp: showNat_500 js_def pngFileName_def)
next
  case (model_write_refused opt ri rm0 e left)
  with assms show ?thesis by (auto simp: pngFileName_def)
next
  case (succeeded opt ri rm)
  with assms show ?thesis by (auto simp: pngFileName_def)
qed

theorem model3d_500_keeps_png_witness:
  "fst (generateImage demoEnv3dDown (js ''a red cube'') emptyWorld)
     = Inr (js ''/app/dist/gen_a_red_cube.png'')
   \<and> axios_arraybuffer demoEnv3dDown
        (model3dRequest demoEnv3dDown
           (model3dForm (ReadStream (js ''/app/dist/gen_a_red_cube.png''))))
       = Resolved \<lparr>status = 500, data = [0x66, 0x61, 0x69, 0x6C]\<rparr>
   \<and> fst (generate3DModel demoEnv3dDown (js ''a red cube'') emptyWorld)
       = Inl (Error (js ''3D model generation failed: 500 - fail''))
   \<and> files (snd (generate3DModel demoEnv3dDown (js ''a red cube'') emptyWorld))
        (js ''/app/dist/gen_a_red_cube.png'') = Some [0x89, 0x50, 0x4E, 0x47]
   \<and> fst (generateImage demoEnv3dRejected (js ''a red cube'') emptyWorld)
     = Inr (js ''/app/dist/gen_a_red_cube.png'')
   \<and> axios_arraybuffer demoEnv3dRejected
        (model3dRequest demoEnv3dRejected
           (model3dForm (ReadStream (js ''/app/dist/gen_a_red_cube.png''))))
       = Rejected (AxiosError (js ''Request failed with status code 500''))
   \<and> fst (generate3DModel demoEnv3dRejected (js ''a red cube'') emptyWorld)
       = Inl (AxiosError (js ''Request failed with status code 500''))
   \<and> files (snd (generate3DModel demoEnv3dRejected (js ''a red cube'') emptyWorld))
        (js ''/app/dist/gen_a_red_cube.png'') = Some [0x89, 0x50, 0x4E, 0x47]"
proof -
  let ?p = "js ''a red cube''"
  let ?png = "js ''/app/dist/gen_a_red_cube.png''"
  let ?w1 = "snd (generateImage demoEnv3dDown ?p emptyWorld)"
  let ?v1 = "snd (generateImage demoEnv3dRejected ?p emptyWorld)"
  let ?r = "\<lparr>status = 500, data = [0x66, 0x61, 0x69, 0x6C :: 8 word]\<rparr>"
  let ?e = "AxiosError (js ''Request failed with status code 500'')"
  have image: "generateImage demoEnv3dDown ?p emptyWorld = (Inr ?png, ?w1)"
    using demo_3d_down_run(1) [of emptyWorld] by (metis prod.collapse)
  have image': "generateImage demoEnv3dRejected ?p emptyWorld = (Inr ?png, ?v1)"
    using demo_3d_rejected_run(1) [of emptyWorld] by (metis prod.collapse)
  have answer: "axios_arraybuffer demoEnv3dDown
        (model3dRequest demoEnv3dDown (model3dForm (ReadStream ?png))) = Resolved ?r"
    by (simp add: demoEnv3dDown_def)
  have answer': "axios_arraybuffer demoEnv3dRejected
        (model3dRequest demoEnv3dRejected (model3dForm (ReadStream ?png))) = Rejected ?e"
    by (simp add: demoEnv3dRejected_def)
  show ?thesis
    using model3d_500_keeps_png [OF image, of ?r ?e]
      model3d_500_keeps_png [OF image', of ?r ?e] answer answer'
      demo_3d_down_run [of emptyWorld] demo_3d_rejected_run [of emptyWorld]
    by (simp add: emptyWorld_def)
qed

lemma v2_png_kept_on_500:
  assumes "generateImage_v2 env p w = (Inr imagePath, w1)"
  shows "(axios_arraybuffer env (model3dRequest env (model3dForm (ReadStream imagePath)))
            = Resolved r
          \<and> status r = 500 \<longrightarrow>
            (\<exists>w2. generate3DModel_v2 env p w =
               (Inl (Error (js ''3D model generation failed: 500 - ''
                            @ buffer_toString env (data r))), w2)
             \<and> files w2 = files w1
             \<and> (\<exists>d. files w1 imagePath = Some d \<and> files w2 imagePath = Some d)))
         \<and> (axios_arraybuffer env (model3dRequest env (model3dForm (ReadStream imagePath)))
               = Rejected e \<longrightarrow>
            (\<exists>w2. generate3DModel_v2 env p w = (Inl e, w2)
             \<and> files w2 = files w1
             \<and> (\<exists>d. files w1 imagePath = Some d \<and> files w2 imagePath = Some d)))"
proof (cases rule: generate3DModel_v2_scenarios [of env p w])
  case (image_failed e)
  with assms show ?thesis by auto
next
  case (image_write_refused ri0 e left)
  with assms show ?thesis by auto
next
  case (model_failed ri e)
  with assms show ?thesis by (auto simp: showNat_500 js_def)
next
  case (model_write_refused ri rm0 e left)
  with assms show ?thesis by auto
next
  case (succeeded ri rm)
  with assms show ?thesis by auto
qed

text \<open>
  C4. Each \<open>catch\<close> block logs the error and throws the same value again: when the \<open>try\<close>
  block of a stage ends with an error, the stage ends with that error and the world of
  the \<open>try\<close> block plus one console line. A failure of \<open>generateImage\<close> leaves
  \<open>generate3DModel\<close> with the same error; a failure of \<open>optimizePrompt\<close> leaves
  \<open>generateImage\<close> and \<open>generate3DModel\<close> with the same error. No endpoint is asked twice.
\<close>

theorem errors_rethrown_unchanged:
  "(optimizePrompt_try env p m w = (Inl e, w1) \<longrightarrow>
      optimizePrompt env p m w =
        (Inl e, w1\<lparr>trace := trace w1 @
           [ConsoleError [Text (js ''Error optimizing prompt:''), Thrown e]]\<rparr>))
   \<and> (optimizePrompt env p (promptModifierImage env) w = (Inr opt, w0)
        \<and> generateImage_try env p opt w0 = (Inl e, w1) \<longrightarrow>
      generateImage env p w =
        (Inl e, w1\<lparr>trace := trace w1 @
           [ConsoleError [Text (js ''Error generating image:''), Thrown e]]\<rparr>))
   \<and> (generate3DModel_try env p w = (Inl e, w1) \<longrightarrow>
      generate3DModel env p w =
        (Inl e, w1\<lparr>trace := trace w1 @
           [ConsoleError [Text (js ''Error generating 3D model:''), Thrown e]]\<rparr>))
   \<and> (generateImage env p w = (Inl e, w1) \<longrightarrow>
      generate3DModel env p w =
        (Inl e, w1\<lparr>trace := trace w1 @
           [ConsoleError [Text (js ''Error generating 3D model:''), Thrown e]]\<rparr>))
   \<and> (optimizePrompt env p (promptModifierImage env) w = (Inl e, w1) \<longrightarrow>
      generateImage env p w = (Inl e, w1)
      \<and> generate3DModel env p w =
        (Inl e, w1\<lparr>trace := trace w1 @
           [ConsoleError [Text (js ''Error generating 3D model:''), Thrown e]]\<rparr>))
   \<and> (\<forall>u. length (filter (isPostTo u) (newEvents w (snd (generate3DModel env p w)))) \<le> 1)"
proof (intro conjI impI allI)
  assume "optimizePrompt_try env p m w = (Inl e, w1)"
  then show "optimizePrompt env p m w =
        (Inl e, w1\<lparr>trace := trace w1 @
           [ConsoleError [Text (js ''Error optimizing prompt:''), Thrown e]]\<rparr>)"
    by (simp add: optimizePrompt_def catch_io_def logAndRethrow_run)
next
  assume "optimizePrompt env p (promptModifierImage env) w = (Inr opt, w0)
        \<and> generateImage_try env p opt w0 = (Inl e, w1)"
  then show "generateImage env p w =
        (Inl e, w1\<lparr>trace := trace w1 @
           [ConsoleError [Text (js ''Error generating image:''), Thrown e]]\<rparr>)"
    by (simp add: generateImage_def bind_io_def catch_io_def logAndRethrow_run)
next
  assume "generate3DModel_try env p w = (Inl e, w1)"
  then show "generate3DModel env p w =
        (Inl e, w1\<lparr>trace := trace w1 @
           [ConsoleError [Text (js ''Error generating 3D model:''), Thrown e]]\<rparr>)"
    by (simp add: generate3DModel_def catch_io_def logAndRethrow_run)
next
  assume "generateImage env p w = (Inl e, w1)"
  then show "generate3DModel env p w =
        (Inl e, w1\<lparr>trace := trace w1 @
           [ConsoleError [Text (js ''Error generating 3D model:''), Thrown e]]\<rparr>)"
    by (simp add: generate3DModel_run logAndRethrow_run)
next
  assume o: "optimizePrompt env p (promptModifierImage env) w = (Inl e, w1)"
  then show g: "generateImage env p w = (Inl e, w1)"
    by (simp add: generateImage_run)
  then show "generate3DModel env p w =
        (Inl e, w1\<lparr>trace := trace w1 @
           [ConsoleError [Text (js ''Error generating 3D model:''), Thrown e]]\<rparr>)"
    by (simp add: generate3DModel_run logAndRethrow_run)
next
  fix u
  show "length (filter (isPostTo u) (newEvents w (snd (generate3DModel env p w)))) \<le> 1"
    by (rule posts_at_most_once)
qed

theorem errors_rethrown_unchanged_witness:
  "optimizePrompt_try demoEnvChatDown (js ''a red cube'') (promptModifierImage demoEnvChatDown)
      emptyWorld
     = (Inl (AxiosError (js ''Network Error'')),
        \<lparr>files = Map.empty,
         trace = [AxiosPost (chatRequest demoEnvChatDown (js ''a red cube'')
                               (promptModifierImage demoEnvChatDown))]\<rparr>)
   \<and> fst (optimizePrompt demoEnvChatDown (js ''a red cube'')
            (promptModifierImage demoEnvChatDown) emptyWorld)
       = Inl (AxiosError (js ''Network Error''))
   \<and> fst (generateImage demoEnvChatDown (js ''a red cube'') emptyWorld)
       = Inl (AxiosError (js ''Network Error''))
   \<and> fst (generate3DModel demoEnvChatDown (js ''a red cube'') emptyWorld)
       = Inl (AxiosError (js ''Network Error''))
   \<and> newEvents emptyWorld (snd (generate3DModel demoEnvChatDown (js ''a red cube'') emptyWorld))
       = [AxiosPost (chatRequest demoEnvChatDown (js ''a red cube'')
                       (promptModifierImage demoEnvChatDown)),
          ConsoleError [Text (js ''Error optimizing prompt:''),
                        Thrown (AxiosError (js ''Network Error''))],
          ConsoleError [Text (js ''Error generating 3D model:''),
                        Thrown (AxiosError (js ''Network Error''))]]"
proof -
  let ?p = "js ''a red cube''"
  let ?m = "promptModifierImage demoEnvChatDown"
  let ?e = "AxiosError (js ''Network Error'')"
  let ?w1 = "\<lparr>files = Map.empty, trace = [AxiosPost (chatRequest demoEnvChatDown ?p ?m)]\<rparr>"
  let ?w2 = "?w1\<lparr>trace := trace ?w1 @ [ConsoleError [Text (js ''Error optimizing prompt:''), Thrown ?e]]\<rparr>"
  have t: "optimizePrompt_try demoEnvChatDown ?p ?m emptyWorld = (Inl ?e, ?w1)"
    by (rule demo_chat_down_run)
  have o: "optimizePrompt demoEnvChatDown ?p ?m emptyWorld = (Inl ?e, ?w2)"
    using errors_rethrown_unchanged [of demoEnvChatDown ?p ?m emptyWorld ?e ?w1] t by simp
  have g: "generateImage demoEnvChatDown ?p emptyWorld = (Inl ?e, ?w2)
      \<and> generate3DModel demoEnvChatDown ?p emptyWorld =
        (Inl ?e, ?w2\<lparr>trace := trace ?w2 @
           [ConsoleError [Text (js ''Error generating 3D model:''), Thrown ?e]]\<rparr>)"
    using errors_rethrown_unchanged [of demoEnvChatDown ?p ?m emptyWorld ?e ?w2] o by blast
  show ?thesis using t o g by (simp add: newEvents_def emptyWorld_def)
qed

text \<open>
  C5. When the chat endpoint answers with status 200 and a body whose \<open>choices\<close> is an
  array, the first element of it has a \<open>message\<close> and that a string \<open>content\<close>, then
  \<open>optimizePrompt\<close> returns that string trimmed: the string without the white space
  before its first and after its last code unit that is not white space.
\<close>

theorem optimizePrompt_returns_trimmed_content:
  assumes "axios_json env (chatRequest env inputPrompt modifier) = Resolved response"
    and "status response = 200"
    and "data response = JObj document"
    and "map_of document (js ''choices'') = Some (JArr (JObj choice # others))"
    and "map_of choice (js ''message'') = Some (JObj message)"
    and "map_of message (js ''content'') = Some (JStr content)"
  shows "optimizePrompt env inputPrompt modifier w =
           (Inr (trim content),
            w\<lparr>trace := trace w @
               [AxiosPost (chatRequest env inputPrompt modifier),
                ConsoleLog [Text (js ''Optimized Prompt: '' @ trim content)]]\<rparr>)
         \<and> (\<exists>before after. content = before @ trim content @ after
                \<and> list_all isWhiteSpace before \<and> list_all isWhiteSpace after)
         \<and> (trim content = []
              \<or> \<not> isWhiteSpace (hd (trim content)) \<and> \<not> isWhiteSpace (last (trim content)))"
proof (intro conjI)
  have "choiceContentTrimmed (data response) = Inr (trim content)"
    using assms(3-6) by (simp add: choiceContentTrimmed_def bindE_def)
  then show "optimizePrompt env inputPrompt modifier w =
           (Inr (trim content),
            w\<lparr>trace := trace w @
               [AxiosPost (chatRequest env inputPrompt modifier),
                ConsoleLog [Text (js ''Optimized Prompt: '' @ trim content)]]\<rparr>)"
    using assms(1,2) by (simp add: optimizePrompt_run)
  show "\<exists>before after. content = before @ trim content @ after
                \<and> list_all isWhiteSpace before \<and> list_all isWhiteSpace after"
    using trim_decompose [of content] by (simp add: list_all_iff)
  show "trim content = []
        \<or> \<not> isWhiteSpace (hd (trim content)) \<and> \<not> isWhiteSpace (last (trim content))"
    using trim_ends [of content] by blast
qed

theorem optimizePrompt_returns_trimmed_content_witness:
  "axios_json demoEnv (chatRequest demoEnv (js ''a red cube'') (js ''style''))
     = Resolved \<lparr>status = 200, data = demoChatBody\<rparr>
   \<and> fst (optimizePrompt demoEnv (js ''a red cube'') (js ''style'') emptyWorld)
       = Inr (js ''a shiny red cube, studio light'')"
proof -
  have answer: "axios_json demoEnv (chatRequest demoEnv (js ''a red cube'') (js ''style''))
     = Resolved \<lparr>status = 200, data = demoChatBody\<rparr>"
    by (simp add: demoEnv_def)
  have t: "trim (js '' a shiny red cube, studio light '') = js ''a shiny red cube, studio light''"
    by (simp add: trim_def isWhiteSpace_def js_def)
  show ?thesis
    using optimizePrompt_returns_trimmed_content
        [of demoEnv "js ''a red cube''" "js ''style''" "\<lparr>status = 200, data = demoChatBody\<rparr>"
            "[(js ''choices'', JArr [JObj [(js ''message'',
                 JObj [(js ''role'', JStr (js ''assistant'')),
                       (js ''content'', JStr (js '' a shiny red cube, studio light ''))])]])]"
            "[(js ''message'',
                 JObj [(js ''role'', JStr (js ''assistant'')),
                       (js ''content'', JStr (js '' a shiny red cube, studio light ''))])]"
            "[]"
            "[(js ''role'', JStr (js ''assistant'')),
              (js ''content'', JStr (js '' a shiny red cube, studio light ''))]"
            "js '' a shiny red cube, studio light ''" emptyWorld]
      answer t
    by (simp add: demoChatBody_def) (simp add: js_def)
qed

text \<open>
  C6. When the chat endpoint answers 200 with a body that has the content to read, the
  image endpoint answers 200, the 3D endpoint answers 200 and the disk takes the two
  writes, \<open>generate3DModel\<close> returns the resolved path of \<open>gen_\<close>, the sanitized prompt and
  \<open>.glb\<close>; that file holds the bytes of the 3D endpoint, the \<open>.png\<close> file is on disk too
  and holds the bytes of the image endpoint, both were written in this run, and no other
  file has changed. (When the disk refuses a write, the run rejects with the error of the
  write: lemmas \<open>png_write_refused\<close> and \<open>glb_write_refused\<close>.)
\<close>

theorem all_endpoints_succeed:
  fixes env p w
  defines "png \<equiv> path_resolve env (dirname env) (js ''gen_'' @ sanitizeFileName p @ js ''.png'')"
    and "glb \<equiv> path_resolve env (dirname env) (js ''gen_'' @ sanitizeFileName p @ js ''.glb'')"
  assumes "axios_json env (chatRequest env p (promptModifierImage env)) = Resolved rc"
    and "status rc = 200"
    and "choiceContentTrimmed (data rc) = Inr opt"
    and "axios_arraybuffer env (imageRequest env (imageForm opt)) = Resolved ri"
    and "status ri = 200"
    and "fs_writeFileSync env png (data ri) = Written"
    and "axios_arraybuffer env (model3dRequest env (model3dForm (ReadStream png))) = Resolved rm"
    and "status rm = 200"
    and "fs_writeFileSync env glb (data rm) = Written"
  shows "\<exists>w'. generate3DModel env p w = (Inr glb, w')
           \<and> files w' glb = Some (data rm)
           \<and> files w' png = Some (if png = glb then data rm else data ri)
           \<and> filter isWrite (newEvents w w')
               = [WriteFileSync png (data ri), WriteFileSync glb (data rm)]
           \<and> (\<forall>q. q = png \<or> q = glb \<or> files w' q = files w q)"
proof (cases rule: generate3DModel_scenarios [of env p w])
  case (optimizer_failed e cs)
  with assms(3-5) show ?thesis by (simp add: optimizePrompt_run)
next
  case (image_failed opt' e)
  with assms(3-7) show ?thesis by (auto simp: optimizePrompt_run)
next
  case (image_write_refused opt' ri0 e left)
  with assms(1,3-8) show ?thesis by (auto simp: optimizePrompt_run pngFileName_def)
next
  case (model_failed opt' ri' e)
  with assms show ?thesis by (auto simp: optimizePrompt_run pngFileName_def)
next
  case (model_write_refused opt' ri' rm0 e left)
  with assms show ?thesis by (auto simp: optimizePrompt_run pngFileName_def glbFileName_def)
next
  case (succeeded opt' ri' rm')
  with assms show ?thesis
    by (auto simp: optimizePrompt_run pngFileName_def glbFileName_def)
qed

theorem all_endpoints_succeed_witness:
  "axios_json demoEnv (chatRequest demoEnv (js ''a red cube'') (promptModifierImage demoEnv))
     = Resolved \<lparr>status = 200, data = demoChatBody\<rparr>
   \<and> choiceContentTrimmed demoChatBody = Inr (js ''a shiny red cube, studio light'')
   \<and> axios_arraybuffer demoEnv
        (imageRequest demoEnv (imageForm (js ''a shiny red cube, studio light'')))
       = Resolved \<lparr>status = 200, data = [0x89, 0x50, 0x4E, 0x47]\<rparr>
   \<and> fs_writeFileSync demoEnv (js ''/app/dist/gen_a_red_cube.png'') [0x89, 0x50, 0x4E, 0x47]
       = Written
   \<and> axios_arraybuffer demoEnv
        (model3dRequest demoEnv (model3dForm (ReadStream (js ''/app/dist/gen_a_red_cube.png''))))
       = Resolved \<lparr>status = 200, data = [0x67, 0x6C, 0x54, 0x46]\<rparr>
   \<and> fs_writeFileSync demoEnv (js ''/app/dist/gen_a_red_cube.glb'') [0x67, 0x6C, 0x54, 0x46]
       = Written
   \<and> fst (generate3DModel demoEnv (js ''a red cube'') emptyWorld)
       = Inr (js ''/app/dist/gen_a_red_cube.glb'')
   \<and> files (snd (generate3DModel demoEnv (js ''a red cube'') emptyWorld))
        (js ''/app/dist/gen_a_red_cube.png'') = Some [0x89, 0x50, 0x4E, 0x47]
   \<and> files (snd (generate3DModel demoEnv (js ''a red cube'') emptyWorld))
        (js ''/app/dist/gen_a_red_cube.glb'') = Some [0x67, 0x6C, 0x54, 0x46]"
proof -
  let ?p = "js ''a red cube''"
  let ?png = "js ''/app/dist/gen_a_red_cube.png''"
  let ?glb = "js ''/app/dist/gen_a_red_cube.glb''"
  have png: "path_resolve demoEnv (dirname demoEnv) (js ''gen_'' @ sanitizeFileName ?p @ js ''.png'')
      = ?png"
    by (simp add: demoEnv_def demo_sanitize) (simp add: js_def)
  have glb: "path_resolve demoEnv (dirname demoEnv) (js ''gen_'' @ sanitizeFileName ?p @ js ''.glb'')
      = ?glb"
    by (simp add: demoEnv_def demo_sanitize) (simp add: js_def)
  have differ: "?png \<noteq> ?glb"
    by (simp add: js_def)
  have chat: "axios_json demoEnv (chatRequest demoEnv ?p (promptModifierImage demoEnv))
     = Resolved \<lparr>status = 200, data = demoChatBody\<rparr>"
    by (simp add: demoEnv_def)
  have image: "axios_arraybuffer demoEnv
        (imageRequest demoEnv (imageForm (js ''a shiny red cube, studio light'')))
       = Resolved \<lparr>status = 200, data = [0x89, 0x50, 0x4E, 0x47]\<rparr>"
    by (simp add: demoEnv_def)
  have model: "axios_arraybuffer demoEnv (model3dRequest demoEnv (model3dForm (ReadStream ?png)))
       = Resolved \<lparr>status = 200, data = [0x67, 0x6C, 0x54, 0x46]\<rparr>"
    by (simp add: demoEnv_def)
  have disk: "fs_writeFileSync demoEnv ?png [0x89, 0x50, 0x4E, 0x47] = Written"
    "fs_writeFileSync demoEnv ?glb [0x67, 0x6C, 0x54, 0x46] = Written"
    by (simp_all add: demoEnv_def)
  have "\<exists>w'. generate3DModel demoEnv ?p emptyWorld = (Inr ?glb, w')
           \<and> files w' ?glb = Some [0x67, 0x6C, 0x54, 0x46]
           \<and> files w' ?png = Some [0x89, 0x50, 0x4E, 0x47]"
    using all_endpoints_succeed
        [of demoEnv ?p "\<lparr>status = 200, data = demoChatBody\<rparr>"
            "js ''a shiny red cube, studio light''"
            "\<lparr>status = 200, data = [0x89, 0x50, 0x4E, 0x47]\<rparr>"
            "\<lparr>status = 200, data = [0x67, 0x6C, 0x54, 0x46]\<rparr>" emptyWorld]
      chat image model demo_choice differ disk
    by (auto simp: png glb)
  then show ?thesis using chat image model demo_choice disk by auto
qed

lemma png_write_refused:
  fixes env p w
  defines "png \<equiv> path_resolve env (dirname env) (js ''gen_'' @ sanitizeFileName p @ js ''.png'')"
  assumes "axios_json env (chatRequest env p (promptModifierImage env)) = Resolved rc"
    and "status rc = 200"
    and "choiceContentTrimmed (data rc) = Inr opt"
    and "axios_arraybuffer env (imageRequest env (imageForm opt)) = Resolved ri"
    and "status ri = 200"
    and "fs_writeFileSync env png (data ri) = Refused e left"
  shows "\<exists>w'. generate3DModel env p w = (Inl e, w')
           \<and> files w' = (files w)(png := left)
           \<and> filter (isPostTo model3dApiUrl) (newEvents w w') = []"
proof (cases rule: generate3DModel_scenarios [of env p w])
  case (optimizer_failed e cs)
  with assms(2-4) show ?thesis by (simp add: optimizePrompt_run)
next
  case (image_failed opt' e)
  with assms(2-6) show ?thesis by (auto simp: optimizePrompt_run)
next
  case (image_write_refused opt' ri0 e left)
  with assms show ?thesis by (auto simp: optimizePrompt_run pngFileName_def)
next
  case (model_failed opt' ri' e)
  with assms show ?thesis by (auto simp: optimizePrompt_run pngFileName_def)
next
  case (model_write_refused opt' ri' rm0 e left)
  with assms show ?thesis by (auto simp: optimizePrompt_run pngFileName_def)
next
  case (succeeded opt' ri' rm')
  with assms show ?thesis by (auto simp: optimizePrompt_run pngFileName_def)
qed

lemma glb_write_refused:
  fixes env p w
  defines "png \<equiv> path_resolve env (dirname env) (js ''gen_'' @ sanitizeFileName p @ js ''.png'')"
    and "glb \<equiv> path_resolve env (dirname env) (js ''gen_'' @ sanitizeFileName p @ js ''.glb'')"
  assumes "axios_json env (chatRequest env p (promptModifierImage env)) = Resolved rc"
    and "status rc = 200"
    and "choiceContentTrimmed (data rc) = Inr opt"
    and "axios_arraybuffer env (imageRequest env (imageForm opt)) = Resolved ri"
    and "status ri = 200"
    and "fs_writeFileSync env png (data ri) = Written"
    and "axios_arraybuffer env (model3dRequest env (model3dForm (ReadStream png))) = Resolved rm"
    and "status rm = 200"
    and "fs_writeFileSync env glb (data rm) = Refused e left"
  shows "\<exists>w'. generate3DModel env p w = (Inl e, w')
           \<and> files w' = (files w)(png \<mapsto> data ri, glb := left)"
proof (cases rule: generate3DModel_scenarios [of env p w])
  case (optimizer_failed e cs)
  with assms(3-5) show ?thesis by (simp add: optimizePrompt_run)
next
  case (image_failed opt' e)
  with assms(3-7) show ?thesis by (auto simp: optimizePrompt_run)
next
  case (image_write_refused opt' ri0 e left)
  with assms(1,3-8) show ?thesis by (auto simp: optimizePrompt_run pngFileName_def)
next
  case (model_failed opt' ri' e)
  with assms show ?thesis by (auto simp: optimizePrompt_run pngFileName_def)
next
  case (model_write_refused opt' ri' rm0 e left)
  with assms show ?thesis by (auto simp: optimizePrompt_run pngFileName_def glbFileName_def)
next
  case (succeeded opt' ri' rm')
  with assms show ?thesis
    by (auto simp: optimizePrompt_run pngFileName_def glbFileName_def)
qed

lemma v2_succeeds_on_all_200:
  fixes env p w
  defines "png \<equiv> path_resolve env (dirname env) (js ''gen_'' @ sanitizeFileName p @ js ''.png'')"
    and "glb \<equiv> path_resolve env (dirname env) (js ''gen_'' @ sanitizeFileName p @ js ''.glb'')"
  assumes "axios_arraybuffer env (imageRequest env (imageForm_v2 env p)) = Resolved ri"
    and "status ri = 200"
    and "fs_writeFileSync env png (data ri) = Written"
    and "axios_arraybuffer env (model3dRequest env (model3dForm (ReadStream png))) = Resolved rm"
    and "status rm = 200"
    and "fs_writeFileSync env glb (data rm) = Written"
  shows "\<exists>w'. generate3DModel_v2 env p w = (Inr glb, w')
           \<and> files w' glb = Some (data rm)
           \<and> files w' png = Some (if png = glb then data rm else data ri)
           \<and> filter isWrite (newEvents w w')
               = [WriteFileSync png (data ri), WriteFileSync glb (data rm)]
           \<and> (\<forall>q. q = png \<or> q = glb \<or> files w' q = files w q)"
proof (cases rule: generate3DModel_v2_scenarios [of env p w])
  case (image_failed e)
  with assms(3,4) show ?thesis by auto
next
  case (image_write_refused ri0 e left)
  with assms(1,3-5) show ?thesis by (auto simp: pngFileName_def)
next
  case (model_failed ri' e)
  with assms show ?thesis by (auto simp: pngFileName_def)
next
  case (model_write_refused ri' rm0 e left)
  with assms show ?thesis by (auto simp: pngFileName_def glbFileName_def)
next
  case (succeeded ri' rm')
  with assms show ?thesis by (auto simp: pngFileName_def glbFileName_def)
qed

text \<open>
  C7. A request that a run of \<open>generate3DModel\<close> posts to the 3D endpoint carries a form
  of three fields, in this order: \<open>image\<close>, a read stream on the path that
  \<open>generateImage\<close> returned, where the file written by it is; \<open>texture_resolution\<close> with
  the text \<open>512\<close>; \<open>foreground_ratio\<close> with the text \<open>0.7\<close>. The two texts are literals:
  no prompt and no answer of an endpoint changes them.
\<close>

theorem model3d_request_form:
  fixes env p w
  defines "png \<equiv> path_resolve env (dirname env) (js ''gen_'' @ sanitizeFileName p @ js ''.png'')"
  assumes "AxiosPost req \<in> set (newEvents w (snd (generate3DModel env p w)))"
    and "url req = model3dApiUrl"
  shows "body req = FormBody
           [(js ''image'', ReadStream png),
            (js ''texture_resolution'', Field (js ''512'')),
            (js ''foreground_ratio'', Field (js ''0.7''))]
         \<and> (\<exists>w1 d. generateImage env p w = (Inr png, w1) \<and> files w1 png = Some d)
         \<and> CreateReadStream png \<in> set (newEvents w (snd (generate3DModel env p w)))"
proof (cases rule: generate3DModel_scenarios [of env p w])
  case (optimizer_failed e cs)
  with assms(2,3) show ?thesis by auto
next
  case (image_failed opt e)
  with assms(2,3) show ?thesis by auto
next
  case (image_write_refused opt ri0 e left)
  with assms(2,3) show ?thesis by auto
next
  case (model_failed opt ri e)
  with assms(2,3) show ?thesis
    by (auto simp: png_def pngFileName_def model3dRequest_def model3dForm_def)
next
  case (model_write_refused opt ri rm0 e left)
  with assms(2,3) show ?thesis
    by (auto simp: png_def pngFileName_def model3dRequest_def model3dForm_def)
next
  case (succeeded opt ri rm)
  with assms(2,3) show ?thesis
    by (auto simp: png_def pngFileName_def model3dRequest_def model3dForm_def)
qed

theorem model3d_request_form_witness:
  "AxiosPost (model3dRequest demoEnv
       (model3dForm (ReadStream (js ''/app/dist/gen_a_red_cube.png''))))
     \<in> set (newEvents emptyWorld (snd (generate3DModel demoEnv (js ''a red cube'') emptyWorld)))
   \<and> url (model3dRequest demoEnv
       (model3dForm (ReadStream (js ''/app/dist/gen_a_red_cube.png'')))) = model3dApiUrl
   \<and> body (model3dRequest demoEnv
       (model3dForm (ReadStream (js ''/app/dist/gen_a_red_cube.png''))))
      = FormBody
           [(js ''image'', ReadStream (js ''/app/dist/gen_a_red_cube.png'')),
            (js ''texture_resolution'', Field (js ''512'')),
            (js ''foreground_ratio'', Field (js ''0.7''))]"
proof -
  let ?req = "model3dRequest demoEnv
       (model3dForm (ReadStream (js ''/app/dist/gen_a_red_cube.png'')))"
  let ?evs = "newEvents emptyWorld (snd (generate3DModel demoEnv (js ''a red cube'') emptyWorld))"
  have png: "path_resolve demoEnv (dirname demoEnv)
               (js ''gen_'' @ sanitizeFileName (js ''a red cube'') @ js ''.png'')
             = js ''/app/dist/gen_a_red_cube.png''"
    by (simp add: demoEnv_def demo_sanitize) (simp add: js_def)
  have "?evs ! 7 \<in> set ?evs"
    by (rule nth_mem) (simp add: demo_model_trace(2))
  then have posted: "AxiosPost ?req \<in> set ?evs"
    by (simp add: demo_model_trace(1))
  have to: "url ?req = model3dApiUrl" by simp
  show ?thesis
    using model3d_request_form [OF posted to] posted to by (simp add: png)
qed

lemma v2_form_of_model3d_request:
  fixes env p w
  defines "png \<equiv> path_resolve env (dirname env) (js ''gen_'' @ sanitizeFileName p @ js ''.png'')"
  assumes "AxiosPost req \<in> set (newEvents w (snd (generate3DModel_v2 env p w)))"
    and "url req = model3dApiUrl"
  shows "body req = FormBody
           [(js ''image'', ReadStream png),
            (js ''texture_resolution'', Field (js ''512'')),
            (js ''foreground_ratio'', Field (js ''0.7''))]
         \<and> (\<exists>w1 d. generateImage_v2 env p w = (Inr png, w1) \<and> files w1 png = Some d)"
proof (cases rule: generate3DModel_v2_scenarios [of env p w])
  case (image_failed e)
  with assms(2,3) show ?thesis by auto
next
  case (image_write_refused ri0 e left)
  with assms(2,3) show ?thesis by auto
next
  case (model_failed ri e)
  with assms(2,3) show ?thesis
    by (auto simp: png_def pngFileName_def model3dRequest_def model3dForm_def)
next
  case (model_write_refused ri rm0 e left)
  with assms(2,3) show ?thesis
    by (auto simp: png_def pngFileName_def model3dRequest_def model3dForm_def)
next
  case (succeeded ri rm)
  with assms(2,3) show ?thesis
    by (auto simp: png_def pngFileName_def model3dRequest_def model3dForm_def)
qed

text \<open>
  C8. The stages run one after the other. Whenever a run of \<open>generate3DModel\<close> posts to
  the 3D endpoint, \<open>generateImage\<close> has returned a path before: all its effects,
  the write of the \<open>.png\<close> file among them, come earlier in the trace. Whenever a run posts
  to the image endpoint, \<open>optimizePrompt\<close> has returned before, after its request to the chat
  endpoint. No endpoint receives a second request in the same run.
\<close>

theorem stages_strictly_sequential:
  "(\<forall>i<length (newEvents w (snd (generate3DModel env p w))).
      isPostTo model3dApiUrl (newEvents w (snd (generate3DModel env p w)) ! i) \<longrightarrow>
      (\<exists>png w1 d. generateImage env p w = (Inr png, w1)
         \<and> prefix (newEvents w w1) (newEvents w (snd (generate3DModel env p w)))
         \<and> length (newEvents w w1) \<le> i
         \<and> WriteFileSync png d \<in> set (newEvents w w1)
         \<and> files w1 png = Some d))
   \<and> (\<forall>i<length (newEvents w (snd (generate3DModel env p w))).
      isPostTo imageApiUrl (newEvents w (snd (generate3DModel env p w)) ! i) \<longrightarrow>
      (\<exists>opt w0. optimizePrompt env p (promptModifierImage env) w = (Inr opt, w0)
         \<and> prefix (newEvents w w0) (newEvents w (snd (generate3DModel env p w)))
         \<and> length (newEvents w w0) \<le> i
         \<and> AxiosPost (chatRequest env p (promptModifierImage env)) \<in> set (newEvents w w0)))
   \<and> (\<forall>u. length (filter (isPostTo u) (newEvents w (snd (generate3DModel env p w)))) \<le> 1)"
proof (intro conjI allI impI)
  let ?evs = "newEvents w (snd (generate3DModel env p w))"
  fix i
  assume i: "i < length ?evs" and post: "isPostTo model3dApiUrl (?evs ! i)"
  from i have "?evs ! i \<in> set ?evs" by simp
  with post model3d_post_after_image [of w env p]
  obtain png w1 d B where g: "generateImage env p w = (Inr png, w1)"
    and split: "?evs = newEvents w w1 @ B"
    and none: "\<forall>ev\<in>set (newEvents w w1). \<not> isPostTo model3dApiUrl ev"
    and wr: "WriteFileSync png d \<in> set (newEvents w w1)"
    and f: "files w1 png = Some d"
    by blast
  have "length (newEvents w w1) \<le> i"
    using after_prefix [OF none, of i B] i post split by simp
  moreover have "prefix (newEvents w w1) ?evs"
    using split by (metis prefixI)
  ultimately show "\<exists>png w1 d. generateImage env p w = (Inr png, w1)
         \<and> prefix (newEvents w w1) ?evs \<and> length (newEvents w w1) \<le> i
         \<and> WriteFileSync png d \<in> set (newEvents w w1) \<and> files w1 png = Some d"
    using g wr f by blast
next
  let ?evs = "newEvents w (snd (generate3DModel env p w))"
  fix i
  assume i: "i < length ?evs" and post: "isPostTo imageApiUrl (?evs ! i)"
  from i have "?evs ! i \<in> set ?evs" by simp
  with post image_post_after_optimizer [of w env p]
  obtain opt w0 B where o: "optimizePrompt env p (promptModifierImage env) w = (Inr opt, w0)"
    and split: "?evs = newEvents w w0 @ B"
    and none: "\<forall>ev\<in>set (newEvents w w0). \<not> isPostTo imageApiUrl ev"
    and chat: "AxiosPost (chatRequest env p (promptModifierImage env)) \<in> set (newEvents w w0)"
    by blast
  have "length (newEvents w w0) \<le> i"
    using after_prefix [OF none, of i B] i post split by simp
  moreover have "prefix (newEvents w w0) ?evs"
    using split by (metis prefixI)
  ultimately show "\<exists>opt w0. optimizePrompt env p (promptModifierImage env) w = (Inr opt, w0)
         \<and> prefix (newEvents w w0) ?evs \<and> length (newEvents w w0) \<le> i
         \<and> AxiosPost (chatRequest env p (promptModifierImage env)) \<in> set (newEvents w w0)"
    using o chat by blast
next
  fix u
  show "length (filter (isPostTo u) (newEvents w (snd (generate3DModel env p w)))) \<le> 1"
    by (rule posts_at_most_once)
qed

theorem stages_strictly_sequential_witness:
  "7 < length (newEvents emptyWorld (snd (generate3DModel demoEnv (js ''a red cube'') emptyWorld)))
   \<and> isPostTo model3dApiUrl
        (newEvents emptyWorld (snd (generate3DModel demoEnv (js ''a red cube'') emptyWorld)) ! 7)
   \<and> isPostTo imageApiUrl
        (newEvents emptyWorld (snd (generate3DModel demoEnv (js ''a red cube'') emptyWorld)) ! 2)
   \<and> fst (generateImage demoEnv (js ''a red cube'') emptyWorld)
       = Inr (js ''/app/dist/gen_a_red_cube.png'')
   \<and> length (newEvents emptyWorld (snd (generateImage demoEnv (js ''a red cube'') emptyWorld)))
       \<le> 7
   \<and> fst (optimizePrompt demoEnv (js ''a red cube'') (promptModifierImage demoEnv) emptyWorld)
       = Inr (js ''a shiny red cube, studio light'')
   \<and> length (newEvents emptyWorld
         (snd (optimizePrompt demoEnv (js ''a red cube'') (promptModifierImage demoEnv)
                emptyWorld)))
       \<le> 2
   \<and> length (filter (isPostTo model3dApiUrl)
         (newEvents emptyWorld (snd (generate3DModel demoEnv (js ''a red cube'') emptyWorld))))
       \<le> 1"
proof -
  let ?evs = "newEvents emptyWorld (snd (generate3DModel demoEnv (js ''a red cube'') emptyWorld))"
  note inst = stages_strictly_sequential [of emptyWorld demoEnv "js ''a red cube''"]
  have at7: "7 < length ?evs" and at2: "2 < length ?evs"
    by (simp_all add: demo_model_trace(2))
  have p7: "isPostTo model3dApiUrl (?evs ! 7)" by (simp add: demo_model_trace(1))
  have p2: "isPostTo imageApiUrl (?evs ! 2)" by (simp add: demo_model_trace(3))
  from inst at7 p7 obtain png w1 where
    "generateImage demoEnv (js ''a red cube'') emptyWorld = (Inr png, w1)"
    "length (newEvents emptyWorld w1) \<le> 7"
    by blast
  then have image: "length (newEvents emptyWorld
       (snd (generateImage demoEnv (js ''a red cube'') emptyWorld))) \<le> 7"
    by simp
  from inst at2 p2 obtain opt w0 where
    "optimizePrompt demoEnv (js ''a red cube'') (promptModifierImage demoEnv) emptyWorld
       = (Inr opt, w0)"
    "length (newEvents emptyWorld w0) \<le> 2"
    by blast
  then have optimizer: "length (newEvents emptyWorld
       (snd (optimizePrompt demoEnv (js ''a red cube'') (promptModifierImage demoEnv)
              emptyWorld))) \<le> 2"
    by simp
  from inst have once: "length (filter (isPostTo model3dApiUrl) ?evs) \<le> 1" by blast
  show ?thesis
    using at7 p7 p2 image optimizer once demo_image_run(1) [of emptyWorld] demo_image_trace(3)
    by simp
qed

lemma v2_stages_in_order:
  "(\<forall>i<length (newEvents w (snd (generate3DModel_v2 env p w))).
      isPostTo model3dApiUrl (newEvents w (snd (generate3DModel_v2 env p w)) ! i) \<longrightarrow>
      (\<exists>png w1 d. generateImage_v2 env p w = (Inr png, w1)
         \<and> prefix (newEvents w w1) (newEvents w (snd (generate3DModel_v2 env p w)))
         \<and> length (newEvents w w1) \<le> i
         \<and> WriteFileSync png d \<in> set (newEvents w w1)
         \<and> files w1 png = Some d))
   \<and> (\<forall>u. length (filter (isPostTo u) (newEvents w (snd (generate3DModel_v2 env p w)))) \<le> 1)"
proof -
  let ?evs = "newEvents w (snd (generate3DModel_v2 env p w))"
  have shape: "(\<forall>ev\<in>set ?evs. \<not> isPostTo model3dApiUrl ev)
         \<or> (\<exists>png w1 d B. generateImage_v2 env p w = (Inr png, w1)
               \<and> ?evs = newEvents w w1 @ B
               \<and> (\<forall>ev\<in>set (newEvents w w1). \<not> isPostTo model3dApiUrl ev)
               \<and> WriteFileSync png d \<in> set (newEvents w w1)
               \<and> files w1 png = Some d)"
    by (cases rule: generate3DModel_v2_scenarios [of env p w]) simp_all
  have once: "length (filter (isPostTo u) ?evs) \<le> 1" for u
    by (cases rule: generate3DModel_v2_scenarios [of env p w]) auto
  have "\<exists>png w1 d. generateImage_v2 env p w = (Inr png, w1)
         \<and> prefix (newEvents w w1) ?evs \<and> length (newEvents w w1) \<le> i
         \<and> WriteFileSync png d \<in> set (newEvents w w1) \<and> files w1 png = Some d"
    if i: "i < length ?evs" and post: "isPostTo model3dApiUrl (?evs ! i)" for i
  proof -
    from i have "?evs ! i \<in> set ?evs" by simp
    with post shape
    obtain png w1 d B where g: "generateImage_v2 env p w = (Inr png, w1)"
      and split: "?evs = newEvents w w1 @ B"
      and none: "\<forall>ev\<in>set (newEvents w w1). \<not> isPostTo model3dApiUrl ev"
      and wr: "WriteFileSync png d \<in> set (newEvents w w1)"
      and f: "files w1 png = Some d"
      by blast
    have "length (newEvents w w1) \<le> i"
      using after_prefix [OF none, of i B] i post split by simp
    moreover have "prefix (newEvents w w1) ?evs"
      using split by (metis prefixI)
    ultimately show ?thesis using g wr f by blast
  qed
  with once show ?thesis by blast
qed

text \<open>
  C9. \<open>sanitizeFileName\<close> is idempotent; its result has at most 20 code units, all of
  them letters a-z, A-Z, digits or the underscore; for an empty prompt and for a prompt
  of white space only the result is empty, so the two file names are \<open>gen_.png\<close> and
  \<open>gen_.glb\<close>.
\<close>

theorem sanitizeFileName_idempotent:
  "sanitizeFileName (sanitizeFileName s) = sanitizeFileName s
   \<and> length (sanitizeFileName s) \<le> 20
   \<and> set (sanitizeFileName s)
       \<subseteq> set (js ''abcdefghijklmnopqrstuvwxyzABCDEFGHIJKLMNOPQRSTUVWXYZ0123456789_'')
   \<and> ((\<forall>c\<in>set s. isWhiteSpace c) \<longrightarrow>
        sanitizeFileName s = [] \<and> pngFileName s = js ''gen_.png''
        \<and> glbFileName s = js ''gen_.glb'')"
proof (intro conjI impI)
  show "sanitizeFileName (sanitizeFileName s) = sanitizeFileName s"
    by (rule sanitize_idem)
  show "length (sanitizeFileName s) \<le> 20"
    by (rule length_sanitize)
  show "set (sanitizeFileName s)
       \<subseteq> set (js ''abcdefghijklmnopqrstuvwxyzABCDEFGHIJKLMNOPQRSTUVWXYZ0123456789_'')"
  proof
    fix c assume "c \<in> set (sanitizeFileName s)"
    then have "isAlnum c \<or> c = 0x5F" by (rule set_sanitize)
    then show "c \<in> set (js ''abcdefghijklmnopqrstuvwxyzABCDEFGHIJKLMNOPQRSTUVWXYZ0123456789_'')"
      unfolding isAlnum_chars by (auto simp: js_def)
  qed
next
  assume "\<forall>c\<in>set s. isWhiteSpace c"
  then have "trim s = []" by (rule trim_all_whitespace)
  then show e: "sanitizeFileName s = []"
    by (simp add: sanitizeFileName_def replaceNonAlnum_def substring0_def)
  show "pngFileName s = js ''gen_.png''" by (simp add: pngFileName_def e js_def)
  show "glbFileName s = js ''gen_.glb''" by (simp add: glbFileName_def e js_def)
qed

theorem sanitizeFileName_idempotent_witness:
  "list_all isWhiteSpace [0x20, 0x09, 0xA0, 0x2003, 0x0A]
   \<and> sanitizeFileName [0x20, 0x09, 0xA0, 0x2003, 0x0A] = []
   \<and> pngFileName [0x20, 0x09, 0xA0, 0x2003, 0x0A] = js ''gen_.png''
   \<and> glbFileName [0x20, 0x09, 0xA0, 0x2003, 0x0A] = js ''gen_.glb''
   \<and> sanitizeFileName (sanitizeFileName (js ''a friendly squirrel with a yellow hat''))
       = js ''a_friendly_squirrel_''"
proof -
  have ws: "\<forall>c\<in>set [0x20, 0x09, 0xA0, 0x2003, 0x0A]. isWhiteSpace c"
    by (simp add: isWhiteSpace_def)
  have long: "sanitizeFileName (js ''a friendly squirrel with a yellow hat'')
                = js ''a_friendly_squirrel_''"
    by (simp add: sanitizeFileName_def substring0_def replaceNonAlnum_def trim_def
          isWhiteSpace_def isAlnum_def js_def)
  show ?thesis
    using ws long
      sanitizeFileName_idempotent [of "[0x20, 0x09, 0xA0, 0x2003, 0x0A]"]
      sanitizeFileName_idempotent [of "js ''a friendly squirrel with a yellow hat''"]
    by (simp add: list_all_iff)
qed

text \<open>
  C10. In the variant with the optimizer, every file that a run of \<open>generate3DModel\<close>
  writes is named from the prompt the caller passed: the resolved \<open>gen_\<close>, sanitized
  prompt, \<open>.png\<close>, or the same with \<open>.glb\<close>. The text that \<open>optimizePrompt\<close> returned goes
  into the request to the image endpoint and into no file name. A run that returns has
  written exactly these two files, one after the other.
\<close>

theorem file_names_from_original_prompt:
  fixes env p w
  defines "stem \<equiv> js ''gen_'' @ sanitizeFileName p"
  shows "(\<forall>q d. WriteFileSync q d \<in> set (newEvents w (snd (generate3DModel env p w))) \<longrightarrow>
            q = path_resolve env (dirname env) (stem @ js ''.png'')
            \<or> q = path_resolve env (dirname env) (stem @ js ''.glb''))
         \<and> (\<forall>out w'. generate3DModel env p w = (Inr out, w') \<longrightarrow>
              out = path_resolve env (dirname env) (stem @ js ''.glb'')
              \<and> (\<exists>d1 d2. filter isWrite (newEvents w w')
                    = [WriteFileSync (path_resolve env (dirname env) (stem @ js ''.png'')) d1,
                       WriteFileSync (path_resolve env (dirname env) (stem @ js ''.glb'')) d2]))
         \<and> (\<forall>req. AxiosPost req \<in> set (newEvents w (snd (generate3DModel env p w)))
                \<and> url req = imageApiUrl \<longrightarrow>
              (\<exists>opt w0. optimizePrompt env p (promptModifierImage env) w = (Inr opt, w0)
                 \<and> body req = FormBody [(js ''prompt'', Field opt),
                                         (js ''output_format'', Field (js ''png''))]))"
proof (cases rule: generate3DModel_scenarios [of env p w])
  case (optimizer_failed e cs)
  then show ?thesis by auto
next
  case (image_failed opt e)
  then show ?thesis by (auto simp: imageRequest_def imageForm_def)
next
  case (image_write_refused opt ri0 e left)
  then show ?thesis
    by (auto simp: imageRequest_def imageForm_def stem_def pngFileName_def)
next
  case (model_failed opt ri e)
  then show ?thesis
    by (auto simp: imageRequest_def imageForm_def stem_def pngFileName_def)
next
  case (model_write_refused opt ri rm0 e left)
  then show ?thesis
    by (auto simp: imageRequest_def imageForm_def stem_def pngFileName_def glbFileName_def)
next
  case (succeeded opt ri rm)
  then show ?thesis
    by (auto simp: imageRequest_def imageForm_def stem_def pngFileName_def glbFileName_def)
qed

theorem file_names_from_original_prompt_witness:
  "fst (optimizePrompt demoEnv (js ''a red cube'') (promptModifierImage demoEnv) emptyWorld)
     = Inr (js ''a shiny red cube, studio light'')
   \<and> sanitizeFileName (js ''a shiny red cube, studio light'') = js ''a_shiny_red_cube__st''
   \<and> sanitizeFileName (js ''a red cube'') = js ''a_red_cube''
   \<and> fst (generate3DModel demoEnv (js ''a red cube'') emptyWorld)
       = Inr (js ''/app/dist/gen_a_red_cube.glb'')
   \<and> filter isWrite
        (newEvents emptyWorld (snd (generate3DModel demoEnv (js ''a red cube'') emptyWorld)))
       = [WriteFileSync (js ''/app/dist/gen_a_red_cube.png'') [0x89, 0x50, 0x4E, 0x47],
          WriteFileSync (js ''/app/dist/gen_a_red_cube.glb'') [0x67, 0x6C, 0x54, 0x46]]"
proof -
  have other: "sanitizeFileName (js ''a shiny red cube, studio light'') = js ''a_shiny_red_cube__st''"
    by (simp add: sanitizeFileName_def substring0_def replaceNonAlnum_def trim_def
          isWhiteSpace_def isAlnum_def js_def)
  show ?thesis
    using file_names_from_original_prompt [of emptyWorld demoEnv "js ''a red cube''"]
      other demo_sanitize demo_image_trace(3) demo_model_run(1) [of emptyWorld]
      demo_model_trace(4)
    by simp
qed

end
